theory Spec2Isabelle
  imports Main
begin

section \<open>carscrape.py: the listing harvester and the detail-page extractor\<close>

text \<open>
  The script drives a headless browser. The browser and the web site are outside the
  program, so the model takes them as data: a \<open>web\<close> maps a URL to the document that
  \<open>browser.get\<close> renders there (\<open>None\<close> when \<open>browser.get\<close> raises), and a document is
  the answers to the element lookups the script makes on it. Every exception the script
  can raise is a value of \<open>error\<close>; a function returns \<open>Inl e\<close> where the Python raises.
\<close>

subsection \<open>Constants, exceptions and Python builtins\<close>

datatype error =
  AttributeError | NoSuchElementException | TimeoutException | ValueError | IndexError
  | KeyError

definition BASE_URL :: string where
  "BASE_URL = ''https://www.autotrader.co.uk''"

definition POSTCODE :: string where
  "POSTCODE = ''PO16+7GZ''"

text \<open>
  \<open>CarTup\<close>: one row of the CSV file. The three columns are strings as \<open>csv.reader\<close>
  yields them. The fields carry the prefix \<open>tup_\<close>: \<open>make\<close> is a name the record
  package keeps for itself, and \<open>model\<close> is also an attribute of \<open>Advertisement\<close>.
\<close>

record CarTup =
  tup_make :: string
  tup_model :: string
  tup_total :: string

text \<open>
  \<open>xs[i]\<close> of Python: a negative index counts from the end, an index out of range raises
  \<open>IndexError\<close>.
\<close>

definition py_index :: "'a list \<Rightarrow> int \<Rightarrow> error + 'a" where
  "py_index xs i =
     (let k = (if i < 0 then i + int (length xs) else i)
      in if k < 0 \<or> int (length xs) \<le> k then Inl IndexError else Inr (xs ! nat k))"

text \<open>
  \<open>s.split(sep)\<close> for a separator of one character: the pieces between the separators,
  empty pieces kept, so the result always has at least one piece.
\<close>

fun py_split :: "char \<Rightarrow> string \<Rightarrow> string list" where
  "py_split sep [] = [[]]"
| "py_split sep (c # cs) =
     (if c = sep then [] # py_split sep cs
      else (case py_split sep cs of
              [] \<Rightarrow> [[c]]
            | w # ws \<Rightarrow> (c # w) # ws))"

text \<open>
  \<open>int(s)\<close> on ASCII text: white space around the number (blank, tab, line feed,
  vertical tab, form feed, carriage return) is dropped, one sign may lead, and the rest
  is decimal digits, where single underscores may stand between digits. Anything else
  raises \<open>ValueError\<close>.
\<close>

definition is_space :: "char \<Rightarrow> bool" where
  "is_space c = (of_char c \<in> {9, 10, 11, 12, 13, 32 :: nat})"

definition is_digit :: "char \<Rightarrow> bool" where
  "is_digit c = (48 \<le> (of_char c :: nat) \<and> (of_char c :: nat) \<le> 57)"

definition strip :: "string \<Rightarrow> string" where
  "strip s = rev (dropWhile is_space (rev (dropWhile is_space s)))"

fun digits_ok :: "string \<Rightarrow> bool" where
  "digits_ok [] = False"
| "digits_ok [c] = is_digit c"
| "digits_ok (c # d # cs) =
     (is_digit c \<and> (if d = CHR ''_'' then digits_ok cs else digits_ok (d # cs)))"

definition digits_value :: "string \<Rightarrow> int" where
  "digits_value s =
     foldl (\<lambda>acc c. if c = CHR ''_'' then acc else 10 * acc + (int (of_char c) - 48)) 0 s"

definition py_int :: "string \<Rightarrow> error + int" where
  "py_int s =
     (case strip s of
        [] \<Rightarrow> Inl ValueError
      | c # cs \<Rightarrow>
          if c = CHR ''-'' then (if digits_ok cs then Inr (- digits_value cs) else Inl ValueError)
          else if c = CHR ''+'' then (if digits_ok cs then Inr (digits_value cs) else Inl ValueError)
          else if digits_ok (c # cs) then Inr (digits_value (c # cs)) else Inl ValueError)"

subsection \<open>The browser\<close>

text \<open>
  A browser holds the document it was opened on. \<open>clicks\<close> counts the scripted clicks on
  the next-page arrow, and so says which result page the browser is on; \<open>reads\<close> counts
  the calls of \<open>find_elements_by_class_name\<close> for the search results; \<open>closed\<close> says
  whether \<open>clean_up\<close> has run. The script has no such counters: they record what it
  did to the browser.
\<close>

record 'd browser =
  shown :: 'd
  clicks :: nat
  reads :: nat
  closed :: bool

text \<open>
  \<open>open_browser\<close>: \<open>None\<close> when \<open>browser.get\<close> raises (the exception is logged).
  Starting Firefox itself is taken to succeed.
\<close>

definition open_browser :: "(string \<Rightarrow> 'd option) \<Rightarrow> string \<Rightarrow> 'd browser option" where
  "open_browser web next_url =
     (case web next_url of
        None \<Rightarrow> None
      | Some d \<Rightarrow> Some \<lparr>shown = d, clicks = 0, reads = 0, closed = False\<rparr>)"

text \<open>
  \<open>clean_up\<close>: closes and quits; every exception is caught and logged, so on \<open>None\<close>
  (where \<open>browser.close\<close> raises \<open>AttributeError\<close>) nothing happens.
\<close>

definition clean_up :: "'d browser option \<Rightarrow> 'd browser option" where
  "clean_up browser =
     (case browser of
        None \<Rightarrow> None
      | Some b \<Rightarrow> Some (b\<lparr>closed := True\<rparr>))"

subsection \<open>The listing harvester: \<open>search_one_car_type\<close>\<close>

text \<open>
  One rendered page of search results: the \<open>id\<close> attribute of every element of class
  \<open>search-page__result\<close>, whether an element of class \<open>pagination--right__active\<close> is
  there, and whether that element goes stale within the 60 seconds of the wait once it
  has been clicked. A listing is the text of the results-count header (\<open>None\<close> when the
  element is missing) and the result pages in the order the clicks reach them.
\<close>

record result_page =
  result_ids :: "string list"
  next_arrow :: bool
  arrow_goes_stale :: bool

record listing =
  count_header :: "string option"
  result_pages :: "nat \<Rightarrow> result_page"

definition search_url :: "string \<Rightarrow> string \<Rightarrow> string" where
  "search_url next_make next_model =
     BASE_URL @ ''/car-search?'' @ ''advertising-location=at_cars&''
       @ ''price-search-type=total-price&'' @ ''search-target=usedcars&''
       @ ''postcode='' @ POSTCODE @ ''&'' @ ''make='' @ next_make @ ''&''
       @ ''model='' @ next_model @ ''&''"

text \<open>
  The \<open>while True\<close> loop. It may run forever (every page has an arrow and the threshold
  is never reached), so the result is an option and \<open>None\<close> is "does not return".
  With \<open>browser = None\<close> the read is skipped and, unless the threshold is met,
  \<open>browser.find_element_by_class_name\<close> raises \<open>AttributeError\<close>.
\<close>

partial_function (option) search_loop ::
  "int \<Rightarrow> listing browser option \<Rightarrow> string set
     \<Rightarrow> ((error + string set) \<times> listing browser option) option" where
  "search_loop total_cars browser cars_found =
     (case browser of
        None \<Rightarrow>
          (if total_cars \<le> int (card cars_found) then Some (Inr cars_found, None)
           else Some (Inl AttributeError, None))
      | Some b \<Rightarrow>
          (let page = result_pages (shown b) (clicks b);
               found = cars_found \<union> set (result_ids page);
               b1 = b\<lparr>reads := reads b + 1\<rparr>
           in if total_cars \<le> int (card found) then Some (Inr found, Some b1)
              else if \<not> next_arrow page then Some (Inl NoSuchElementException, Some b1)
              else if \<not> arrow_goes_stale page
                then Some (Inl TimeoutException, Some (b1\<lparr>clicks := clicks b + 1\<rparr>))
              else search_loop total_cars (Some (b1\<lparr>clicks := clicks b + 1\<rparr>)) found))"

text \<open>
  The website's own total: the text of the element of class
  \<open>search-form__count.js-results-count\<close>, up to its first blank, read as an integer.
\<close>

definition read_actual_total :: "listing \<Rightarrow> error + int" where
  "read_actual_total site =
     (case count_header site of
        None \<Rightarrow> Inl NoSuchElementException
      | Some header_text \<Rightarrow>
          (case py_index (py_split CHR '' '' header_text) 0 of
             Inl e \<Rightarrow> Inl e
           | Inr actual_total_string \<Rightarrow> py_int actual_total_string))"

text \<open>
  \<open>search_one_car_type\<close>. The second component of the result is the browser as the
  function leaves it (\<open>None\<close> when none was opened). With \<open>browser = None\<close> the lookup
  of the results count raises \<open>AttributeError\<close>. The website's total is parsed into
  \<open>actual_total\<close> and then not used: the line that would use it is commented out.
\<close>

definition search_one_car_type ::
  "(string \<Rightarrow> listing option) \<Rightarrow> CarTup
     \<Rightarrow> ((error + string set) \<times> listing browser option) option" where
  "search_one_car_type web next_car =
     (case py_int (tup_total next_car) of
        Inl e \<Rightarrow> Some (Inl e, None)
      | Inr total_cars \<Rightarrow>
          (case open_browser web (search_url (tup_make next_car) (tup_model next_car)) of
             None \<Rightarrow> Some (Inl AttributeError, None)
           | Some b \<Rightarrow>
               (case read_actual_total (shown b) of
                  Inl e \<Rightarrow> Some (Inl e, Some b)
                | Inr actual_total \<Rightarrow>
                    (case search_loop total_cars (Some b) {} of
                       None \<Rightarrow> None
                     | Some (Inl e, br) \<Rightarrow> Some (Inl e, br)
                     | Some (Inr cars_found, br) \<Rightarrow> Some (Inr cars_found, clean_up br)))))"

subsection \<open>The class \<open>Advertisement\<close>\<close>

text \<open>
  The seventeen string attributes. The attribute \<open>make\<close> is the field \<open>ad_make\<close>
  (the record package keeps the name \<open>make\<close> for itself).
\<close>

record Advertisement =
  hyperlink :: string
  description :: string
  seller_type :: string
  price :: string
  ad_make :: string
  model :: string
  year :: string
  mileage :: string
  body_style :: string
  co2emission :: string
  doors :: string
  transmission :: string
  was_stolen :: string
  was_write_off :: string
  was_scrapped :: string
  engine_size :: string
  fuel_type :: string

text \<open>\<open>Advertisement.__init__\<close>: every attribute starts as the empty string.\<close>

definition new_Advertisement :: Advertisement where
  "new_Advertisement =
     \<lparr>hyperlink = '''', description = '''', seller_type = '''', price = '''',
      ad_make = '''', model = '''', year = '''', mileage = '''',
      body_style = '''', co2emission = '''', doors = '''', transmission = '''',
      was_stolen = '''', was_write_off = '''', was_scrapped = '''',
      engine_size = '''', fuel_type = ''''\<rparr>"

subsection \<open>The detail-page extractor: \<open>scrape_one_car\<close>\<close>

text \<open>
  One \<open>li\<close> of the key-specifications list: the \<open>xlink:href\<close> of its \<open>use\<close> child
  (\<open>None\<close>: there is no \<open>use\<close> child, so the lookup raises; \<open>Some None\<close>: the child has
  no such attribute, so \<open>get_attribute\<close> returns \<open>None\<close>) and the text of the \<open>li\<close>.
\<close>

record spec_entry =
  use_href :: "string option option"
  spec_text :: string

text \<open>
  A rendered advert page, as the lookups of \<open>scrape_one_car\<close> see it; \<open>None\<close> is an
  element that is not on the page.
  \<^item> \<open>heading_title\<close>: text of the element of class \<open>advert-heading__title...\<close>;
  \<^item> \<open>cash_price\<close>: text of the element of class \<open>advert-price__cash-price\<close>;
  \<^item> \<open>seller_name\<close>: the paragraph of class \<open>seller-name...\<close>, \<open>True\<close> when it has an
    \<open>a\<close> child;
  \<^item> \<open>key_specifications\<close>: the \<open>li\<close> children of the element of that class;
  \<^item> \<open>tech_specs\<close>: for each \<open>li\<close> of the element of class
    \<open>info-list.tech-specs__info-list\<close>, the \<open>innerHTML\<close> of its \<open>span\<close> children;
  \<^item> \<open>check_list\<close>: for each \<open>li\<close> of the element of class
    \<open>basic-check-m__check-list\<close>, the text of its \<open>span\<close> children.
\<close>

record detail_page =
  heading_title :: "string option"
  cash_price :: "string option"
  seller_name :: "bool option"
  key_specifications :: "spec_entry list option"
  tech_specs :: "string list list option"
  check_list :: "string list list option"

text \<open>\<open>d[k]\<close> on a dict: \<open>KeyError\<close> when the key is missing.\<close>

definition py_getitem :: "(string \<rightharpoonup> string) \<Rightarrow> string \<Rightarrow> error + string" where
  "py_getitem d k = (case d k of None \<Rightarrow> Inl KeyError | Some v \<Rightarrow> Inr v)"

text \<open>The dict \<open>car_specs\<close> as the function initialises it.\<close>

definition default_specs :: "string \<rightharpoonup> string" where
  "default_specs =
     [''year'' \<mapsto> ''Unknown'', ''body_style'' \<mapsto> ''Unknown'', ''mileage'' \<mapsto> ''Unknown'',
      ''engine_size'' \<mapsto> ''Unknown'', ''transmission'' \<mapsto> ''Unknown'',
      ''fuel_type'' \<mapsto> ''Unknown'', ''doors'' \<mapsto> ''Unknown'']"

text \<open>
  The seven \<open>if\<close> statements of the loop body, in the order of the source: each one
  stores the text of the entry under its key when the icon type is its marker.
\<close>

definition set_spec :: "string \<Rightarrow> string \<Rightarrow> (string \<rightharpoonup> string) \<Rightarrow> (string \<rightharpoonup> string)" where
  "set_spec icon_type text car_specs =
     (let s1 = (if icon_type = ''ks-manufactured-year'' then car_specs(''year'' \<mapsto> text) else car_specs);
          s2 = (if icon_type = ''ks-body-type'' then s1(''body_style'' \<mapsto> text) else s1);
          s3 = (if icon_type = ''ks-mileage'' then s2(''mileage'' \<mapsto> text) else s2);
          s4 = (if icon_type = ''ks-engine-size'' then s3(''engine_size'' \<mapsto> text) else s3);
          s5 = (if icon_type = ''ks-transmission'' then s4(''transmission'' \<mapsto> text) else s4);
          s6 = (if icon_type = ''ks-fuel-type'' then s5(''fuel_type'' \<mapsto> text) else s5)
      in if icon_type = ''ks-doors'' then s6(''doors'' \<mapsto> text) else s6)"

text \<open>
  The icon type of one entry: \<open>find_element_by_tag_name('use')\<close>, then
  \<open>get_attribute('xlink:href')\<close>, then \<open>icon_link.split('#')[1]\<close>.
\<close>

definition icon_type_of :: "spec_entry \<Rightarrow> error + string" where
  "icon_type_of each_spec =
     (case use_href each_spec of
        None \<Rightarrow> Inl NoSuchElementException
      | Some None \<Rightarrow> Inl AttributeError
      | Some (Some icon_link) \<Rightarrow> py_index (py_split CHR ''#'' icon_link) 1)"

text \<open>The \<open>for each_spec in available_specs\<close> loop.\<close>

fun read_specs :: "spec_entry list \<Rightarrow> (string \<rightharpoonup> string) \<Rightarrow> error + (string \<rightharpoonup> string)" where
  "read_specs [] car_specs = Inr car_specs"
| "read_specs (each_spec # rest) car_specs =
     (case icon_type_of each_spec of
        Inl e \<Rightarrow> Inl e
      | Inr icon_type \<Rightarrow> read_specs rest (set_spec icon_type (spec_text each_spec) car_specs))"

text \<open>
  The sections of the body of \<open>scrape_one_car\<close>, in the order of the source. Each
  returns what the section leaves in its local variables, or the exception it raises.
\<close>

text \<open>Description, price and seller type: a missing element raises.\<close>

definition read_required :: "detail_page \<Rightarrow> error + (string \<times> string \<times> string)" where
  "read_required page =
     (case heading_title page of
        None \<Rightarrow> Inl NoSuchElementException
      | Some next_description \<Rightarrow>
          (case cash_price page of
             None \<Rightarrow> Inl NoSuchElementException
           | Some next_price \<Rightarrow>
               (case seller_name page of
                  None \<Rightarrow> Inl NoSuchElementException
                | Some has_anchor \<Rightarrow>
                    Inr (next_description, next_price,
                         if has_anchor then ''Dealer'' else ''Private''))))"

text \<open>The key specifications: the defaults when the list is not on the page.\<close>

definition read_key_specs :: "detail_page \<Rightarrow> error + (string \<rightharpoonup> string)" where
  "read_key_specs page =
     (case key_specifications page of
        None \<Rightarrow> Inr default_specs
      | Some available_specs \<Rightarrow> read_specs available_specs default_specs)"

text \<open>The CO2 emission: second span of the last item of the tech-specs table.\<close>

definition read_emission :: "detail_page \<Rightarrow> error + string" where
  "read_emission page =
     (case tech_specs page of
        None \<Rightarrow> Inr ''Unknown''
      | Some tech_specs_items \<Rightarrow>
          (case py_index tech_specs_items (- 1) of
             Inl e \<Rightarrow> Inl e
           | Inr emissions_spans \<Rightarrow> py_index emissions_spans 1))"

text \<open>
  The vehicle check list, in the order stolen, scrapped, write off. The result is
  \<open>(next_was_stolen, next_was_write_off, next_was_scrapped)\<close>.
\<close>

definition second_span :: "string list list \<Rightarrow> int \<Rightarrow> error + string" where
  "second_span vlist_items i =
     (case py_index vlist_items i of
        Inl e \<Rightarrow> Inl e
      | Inr both_spans \<Rightarrow> py_index both_spans 1)"

definition read_vehicle_check :: "detail_page \<Rightarrow> error + (string \<times> string \<times> string)" where
  "read_vehicle_check page =
     (case check_list page of
        None \<Rightarrow> Inr (''Unknown'', ''Unknown'', ''Unknown'')
      | Some vlist_items \<Rightarrow>
          (case second_span vlist_items 0 of
             Inl e \<Rightarrow> Inl e
           | Inr next_was_stolen \<Rightarrow>
               (case second_span vlist_items 1 of
                  Inl e \<Rightarrow> Inl e
                | Inr next_was_scrapped \<Rightarrow>
                    (case second_span vlist_items 2 of
                       Inl e \<Rightarrow> Inl e
                     | Inr next_was_write_off \<Rightarrow>
                         Inr (next_was_stolen, next_was_write_off, next_was_scrapped)))))"

text \<open>
  The assignments that build the Advertisement. The reads of \<open>car_specs\<close> come in the
  order of the source; \<open>ad_make\<close> and \<open>model\<close> are not assigned here.
\<close>

definition build_ad ::
  "Advertisement \<Rightarrow> string \<Rightarrow> string \<times> string \<times> string \<Rightarrow> (string \<rightharpoonup> string) \<Rightarrow> string
     \<Rightarrow> string \<times> string \<times> string \<Rightarrow> error + Advertisement" where
  "build_ad next_ad next_url required car_specs next_emission checks =
     (case required of (next_description, next_price, next_seller) \<Rightarrow>
      case checks of (next_was_stolen, next_was_write_off, next_was_scrapped) \<Rightarrow>
      case py_getitem car_specs ''year'' of Inl e \<Rightarrow> Inl e | Inr v_year \<Rightarrow>
      case py_getitem car_specs ''mileage'' of Inl e \<Rightarrow> Inl e | Inr v_mileage \<Rightarrow>
      case py_getitem car_specs ''body_style'' of Inl e \<Rightarrow> Inl e | Inr v_body_style \<Rightarrow>
      case py_getitem car_specs ''doors'' of Inl e \<Rightarrow> Inl e | Inr v_doors \<Rightarrow>
      case py_getitem car_specs ''transmission'' of Inl e \<Rightarrow> Inl e | Inr v_transmission \<Rightarrow>
      case py_getitem car_specs ''engine_size'' of Inl e \<Rightarrow> Inl e | Inr v_engine_size \<Rightarrow>
      case py_getitem car_specs ''fuel_type'' of Inl e \<Rightarrow> Inl e | Inr v_fuel_type \<Rightarrow>
        Inr (next_ad\<lparr>hyperlink := next_url, description := next_description,
               seller_type := next_seller, price := next_price, year := v_year,
               mileage := v_mileage, body_style := v_body_style,
               co2emission := next_emission, doors := v_doors,
               transmission := v_transmission, was_stolen := next_was_stolen,
               was_write_off := next_was_write_off, was_scrapped := next_was_scrapped,
               engine_size := v_engine_size, fuel_type := v_fuel_type\<rparr>))"

text \<open>
  \<open>scrape_one_car\<close>. With \<open>browser = None\<close> the first lookup raises \<open>AttributeError\<close>.
  The second component is the browser as the function leaves it; \<open>clean_up\<close> is the
  last statement before \<open>return\<close> and there is no \<open>try\<close> around the body.
\<close>

definition scrape_one_car ::
  "(string \<Rightarrow> detail_page option) \<Rightarrow> string
     \<Rightarrow> (error + Advertisement) \<times> detail_page browser option" where
  "scrape_one_car web next_car =
     (let next_ad = new_Advertisement;
          next_url = BASE_URL @ ''/classified/advert/'' @ next_car
      in case open_browser web next_url of
           None \<Rightarrow> (Inl AttributeError, None)
         | Some b \<Rightarrow>
             (case read_required (shown b) of
                Inl e \<Rightarrow> (Inl e, Some b)
              | Inr required \<Rightarrow>
             (case read_key_specs (shown b) of
                Inl e \<Rightarrow> (Inl e, Some b)
              | Inr car_specs \<Rightarrow>
             (case read_emission (shown b) of
                Inl e \<Rightarrow> (Inl e, Some b)
              | Inr next_emission \<Rightarrow>
             (case read_vehicle_check (shown b) of
                Inl e \<Rightarrow> (Inl e, Some b)
              | Inr checks \<Rightarrow>
             (case build_ad next_ad next_url required car_specs next_emission checks of
                Inl e \<Rightarrow> (Inl e, Some b)
              | Inr ad \<Rightarrow> (Inr ad, clean_up (Some b))))))))"

subsection \<open>The orchestrator: \<open>scrape_all_cars\<close>\<close>

text \<open>
  The inner loop \<open>for next_car in car_set\<close>: Python does not fix the order in which a
  set is visited, so the model receives the identifiers as the list in visiting order.
  An exception in \<open>scrape_one_car\<close> ends the whole run.
\<close>

fun scrape_car_set ::
  "(string \<Rightarrow> detail_page option) \<Rightarrow> string \<Rightarrow> string \<Rightarrow> string list
     \<Rightarrow> error + Advertisement list" where
  "scrape_car_set web next_make next_model [] = Inr []"
| "scrape_car_set web next_make next_model (next_car # rest) =
     (case fst (scrape_one_car web next_car) of
        Inl e \<Rightarrow> Inl e
      | Inr next_ad \<Rightarrow>
          (case scrape_car_set web next_make next_model rest of
             Inl e \<Rightarrow> Inl e
           | Inr ads \<Rightarrow> Inr (next_ad\<lparr>ad_make := next_make, model := next_model\<rparr> # ads)))"

fun scrape_all_cars ::
  "(string \<Rightarrow> detail_page option) \<Rightarrow> (string \<times> string \<times> string list) list
     \<Rightarrow> error + Advertisement list" where
  "scrape_all_cars web [] = Inr []"
| "scrape_all_cars web (each_tuple # rest) =
     (case each_tuple of (next_make, next_model, car_set) \<Rightarrow>
      case scrape_car_set web next_make next_model car_set of
        Inl e \<Rightarrow> Inl e
      | Inr ads \<Rightarrow>
          (case scrape_all_cars web rest of
             Inl e \<Rightarrow> Inl e
           | Inr others \<Rightarrow> Inr (ads @ others)))"

subsection \<open>What the loop has collected\<close>

text \<open>
  \<open>harvested pages k\<close>: the identifiers on the first \<open>k\<close> result pages, that is the
  value of \<open>cars_found\<close> once \<open>k\<close> pages have been read.
\<close>

primrec harvested :: "(nat \<Rightarrow> result_page) \<Rightarrow> nat \<Rightarrow> string set" where
  "harvested pages 0 = {}"
| "harvested pages (Suc k) = harvested pages k \<union> set (result_ids (pages k))"

subsection \<open>The marker table and the dispatch it describes\<close>

text \<open>
  The seven \<open>if\<close> statements read as a table from icon marker to key of \<open>car_specs\<close>.
\<close>

definition marker_table :: "(string \<times> string) list" where
  "marker_table =
     [(''ks-manufactured-year'', ''year''), (''ks-body-type'', ''body_style''),
      (''ks-mileage'', ''mileage''), (''ks-engine-size'', ''engine_size''),
      (''ks-transmission'', ''transmission''), (''ks-fuel-type'', ''fuel_type''),
      (''ks-doors'', ''doors'')]"

text \<open>
  The loop over the entries once the icon type of each entry has been read: the body of
  the loop applied to the (marker, text) pairs in order, from the defaults.
\<close>

definition dispatch :: "(string \<times> string) list \<Rightarrow> (string \<rightharpoonup> string)" where
  "dispatch entries = fold (\<lambda>(marker, text). set_spec marker text) entries default_specs"

subsection \<open>What an Advertisement and an advert page hold\<close>

text \<open>The seventeen attributes of an Advertisement, as a list.\<close>

definition ad_fields :: "Advertisement \<Rightarrow> string list" where
  "ad_fields ad =
     [hyperlink ad, description ad, seller_type ad, price ad, ad_make ad, model ad,
      year ad, mileage ad, body_style ad, co2emission ad, doors ad, transmission ad,
      was_stolen ad, was_write_off ad, was_scrapped ad, engine_size ad, fuel_type ad]"

text \<open>Every text an advert page offers to the lookups of \<open>scrape_one_car\<close>.\<close>

definition page_texts :: "detail_page \<Rightarrow> string set" where
  "page_texts page =
     set_option (heading_title page) \<union> set_option (cash_price page)
     \<union> (case key_specifications page of None \<Rightarrow> {} | Some lis \<Rightarrow> spec_text ` set lis)
     \<union> (case tech_specs page of None \<Rightarrow> {} | Some items \<Rightarrow> set (concat items))
     \<union> (case check_list page of None \<Rightarrow> {} | Some items \<Rightarrow> set (concat items))"

subsection \<open>Sample advert pages\<close>

definition spec_li :: "string \<Rightarrow> string \<Rightarrow> spec_entry" where
  "spec_li marker text =
     \<lparr>use_href = Some (Some (''/images/icons.svg#'' @ marker)), spec_text = text\<rparr>"

definition sample_entries :: "(string \<times> string) list" where
  "sample_entries =
     [(''ks-mileage'', ''10,000 miles''), (''ks-sunroof'', ''Panoramic''),
      (''ks-doors'', ''5 doors''), (''ks-mileage'', ''20,000 miles'')]"

definition full_page :: detail_page where
  "full_page =
     \<lparr>heading_title = Some ''Ford Fiesta 1.0T Zetec'',
      cash_price = Some ''9,500'',
      seller_name = Some True,
      key_specifications = Some [spec_li ''ks-manufactured-year'' ''2017 (67 reg)'',
                                 spec_li ''ks-doors'' ''5 doors''],
      tech_specs = Some [[''Top speed'', ''112mph''], [''CO2 emissions'', ''99g/km'']],
      check_list = Some [[''Stolen'', ''Clear''], [''Scrapped'', ''Clear''],
                         [''Written off'', ''Recorded'']]\<rparr>"

definition bare_page :: detail_page where
  "bare_page =
     \<lparr>heading_title = Some ''Audi A3 1.4 TFSI'',
      cash_price = Some ''12,250'',
      seller_name = Some False,
      key_specifications = Some [spec_li ''ks-fuel-type'' ''Petrol''],
      tech_specs = None,
      check_list = None\<rparr>"

definition untitled_page :: detail_page where
  "untitled_page =
     \<lparr>heading_title = Some '''',
      cash_price = Some ''9,500'',
      seller_name = Some True,
      key_specifications = None,
      tech_specs = None,
      check_list = None\<rparr>"

definition four_checks_page :: detail_page where
  "four_checks_page =
     \<lparr>heading_title = Some ''Ford Fiesta 1.0T Zetec'',
      cash_price = Some ''9,500'',
      seller_name = Some True,
      key_specifications = None,
      tech_specs = None,
      check_list = Some [[''Stolen'', ''Clear''], [''Scrapped'', ''Clear''],
                         [''Written off'', ''Clear''], [''Imported'']]\<rparr>"

definition headless_page :: detail_page where
  "headless_page =
     \<lparr>heading_title = None,
      cash_price = Some ''9,500'',
      seller_name = Some True,
      key_specifications = None,
      tech_specs = None,
      check_list = Some [[''Stolen'', ''Clear'']]\<rparr>"

definition two_checks_page :: detail_page where
  "two_checks_page =
     \<lparr>heading_title = Some ''Ford Fiesta 1.0T Zetec'',
      cash_price = Some ''9,500'',
      seller_name = Some True,
      key_specifications = None,
      tech_specs = None,
      check_list = Some [[''Stolen'', ''Clear''], [''Scrapped'', ''Clear'']]\<rparr>"

definition one_span_page :: detail_page where
  "one_span_page =
     \<lparr>heading_title = Some ''Ford Fiesta 1.0T Zetec'',
      cash_price = Some ''9,500'',
      seller_name = Some True,
      key_specifications = None,
      tech_specs = None,
      check_list = Some [[''Stolen'', ''Clear''], [''Scrapped''],
                         [''Written off'', ''Clear'']]\<rparr>"

definition no_hash_page :: detail_page where
  "no_hash_page =
     \<lparr>heading_title = Some ''Ford Fiesta 1.0T Zetec'',
      cash_price = Some ''9,500'',
      seller_name = Some True,
      key_specifications =
        Some [\<lparr>use_href = Some (Some ''/images/icons.svg''), spec_text = ''5 doors''\<rparr>],
      tech_specs = None,
      check_list = None\<rparr>"

definition sample_id :: string where
  "sample_id = ''201910012835451''"

definition bare_ad :: Advertisement where
  "bare_ad =
     \<lparr>hyperlink = ''https://www.autotrader.co.uk/classified/advert/201910012835451'',
      description = ''Audi A3 1.4 TFSI'', seller_type = ''Private'', price = ''12,250'',
      ad_make = '''', model = '''', year = ''Unknown'', mileage = ''Unknown'',
      body_style = ''Unknown'', co2emission = ''Unknown'', doors = ''Unknown'',
      transmission = ''Unknown'', was_stolen = ''Unknown'', was_write_off = ''Unknown'',
      was_scrapped = ''Unknown'', engine_size = ''Unknown'', fuel_type = ''Petrol''\<rparr>"

definition full_ad :: Advertisement where
  "full_ad =
     \<lparr>hyperlink = ''https://www.autotrader.co.uk/classified/advert/201910012835451'',
      description = ''Ford Fiesta 1.0T Zetec'', seller_type = ''Dealer'', price = ''9,500'',
      ad_make = '''', model = '''', year = ''2017 (67 reg)'', mileage = ''Unknown'',
      body_style = ''Unknown'', co2emission = ''99g/km'', doors = ''5 doors'',
      transmission = ''Unknown'', was_stolen = ''Clear'', was_write_off = ''Recorded'',
      was_scrapped = ''Clear'', engine_size = ''Unknown'', fuel_type = ''Unknown''\<rparr>"

definition untitled_ad :: Advertisement where
  "untitled_ad =
     \<lparr>hyperlink = ''https://www.autotrader.co.uk/classified/advert/201910012835451'',
      description = '''', seller_type = ''Dealer'', price = ''9,500'',
      ad_make = ''Ford'', model = ''Fiesta'', year = ''Unknown'', mileage = ''Unknown'',
      body_style = ''Unknown'', co2emission = ''Unknown'', doors = ''Unknown'',
      transmission = ''Unknown'', was_stolen = ''Unknown'', was_write_off = ''Unknown'',
      was_scrapped = ''Unknown'', engine_size = ''Unknown'', fuel_type = ''Unknown''\<rparr>"

definition four_checks_ad :: Advertisement where
  "four_checks_ad =
     \<lparr>hyperlink = ''https://www.autotrader.co.uk/classified/advert/201910012835451'',
      description = ''Ford Fiesta 1.0T Zetec'', seller_type = ''Dealer'', price = ''9,500'',
      ad_make = '''', model = '''', year = ''Unknown'', mileage = ''Unknown'',
      body_style = ''Unknown'', co2emission = ''Unknown'', doors = ''Unknown'',
      transmission = ''Unknown'', was_stolen = ''Clear'', was_write_off = ''Clear'',
      was_scrapped = ''Clear'', engine_size = ''Unknown'', fuel_type = ''Unknown''\<rparr>"

subsection \<open>Sample listings\<close>

text \<open>
  A listing of finitely many result pages: past the last one the page is empty and has
  no arrow.
\<close>

definition pages_of :: "result_page list \<Rightarrow> nat \<Rightarrow> result_page" where
  "pages_of ps n =
     (if n < length ps then ps ! n
      else \<lparr>result_ids = [], next_arrow = False, arrow_goes_stale = False\<rparr>)"

definition turning_page :: "string list \<Rightarrow> result_page" where
  "turning_page ids = \<lparr>result_ids = ids, next_arrow = True, arrow_goes_stale = True\<rparr>"

definition last_page :: "string list \<Rightarrow> result_page" where
  "last_page ids = \<lparr>result_ids = ids, next_arrow = False, arrow_goes_stale = False\<rparr>"

definition fiesta_car :: CarTup where
  "fiesta_car = \<lparr>tup_make = ''Ford'', tup_model = ''Fiesta'', tup_total = ''5''\<rparr>"

definition fiesta_site :: listing where
  "fiesta_site =
     \<lparr>count_header = Some ''120 cars found'',
      result_pages = pages_of [turning_page [''A'', ''B'', ''C''],
                               turning_page [''C'', ''D'', ''E''],
                               last_page [''F'']]\<rparr>"

definition a3_car :: CarTup where
  "a3_car = \<lparr>tup_make = ''Audi'', tup_model = ''A3'', tup_total = ''2''\<rparr>"

definition a3_site :: listing where
  "a3_site =
     \<lparr>count_header = Some ''7 cars found'',
      result_pages = pages_of [turning_page [''201910012835451''],
                               turning_page [''201910012835451'', ''201910012835452''],
                               last_page [''201910012835453'']]\<rparr>"

definition none_expected_car :: CarTup where
  "none_expected_car = \<lparr>tup_make = ''Lada'', tup_model = ''Niva'', tup_total = ''0''\<rparr>"

definition niva_site :: listing where
  "niva_site =
     \<lparr>count_header = Some ''1 cars found'',
      result_pages = pages_of [last_page [''201910012835451'']]\<rparr>"

definition short_site :: listing where
  "short_site =
     \<lparr>count_header = Some ''1 cars found'',
      result_pages = pages_of [last_page [''A'']]\<rparr>"

definition comma_site :: listing where
  "comma_site =
     \<lparr>count_header = Some ''1,234 cars found'',
      result_pages = pages_of [turning_page [''A'', ''B'', ''C''],
                               turning_page [''C'', ''D'', ''E''],
                               last_page [''F'']]\<rparr>"

section \<open>Properties of the listing harvester\<close>

subsection \<open>The loop\<close>

text \<open>The loop never closes the browser and never changes the document it shows.\<close>

lemma search_loop_unchanged:
  "search_loop total_cars browser cars_found = Some y \<Longrightarrow>
     (\<forall>b. browser = Some b \<longrightarrow> (\<exists>b'. snd y = Some b' \<and> closed b' = closed b \<and> shown b' = shown b))"
proof (induct total_cars browser cars_found y rule: search_loop.raw_induct[rotated 1, consumes 1])
  case (1 loop total_cars browser cars_found y)
  show ?case
  proof (intro allI impI)
    fix b assume "browser = Some b"
    let ?page = "result_pages (shown b) (clicks b)"
    let ?found = "cars_found \<union> set (result_ids ?page)"
    let ?b2 = "b\<lparr>reads := reads b + 1, clicks := clicks b + 1\<rparr>"
    show "\<exists>b'. snd y = Some b' \<and> closed b' = closed b \<and> shown b' = shown b"
    proof (cases "total_cars \<le> int (card ?found) \<or> \<not> next_arrow ?page \<or> \<not> arrow_goes_stale ?page")
      case True
      with 1(2) \<open>browser = Some b\<close> show ?thesis by (auto simp: Let_def split: if_splits)
    next
      case False
      with 1(2) \<open>browser = Some b\<close> have "loop total_cars (Some ?b2) ?found = Some y"
        by (simp add: Let_def)
      from 1(1)[OF this] show ?thesis by simp
    qed
  qed
qed

text \<open>
  When the loop returns a set, it has stopped at the first read at which the threshold
  was met.
\<close>

lemma search_loop_sound:
  "search_loop total_cars browser cars_found = Some y \<Longrightarrow>
     (\<forall>b S fin. browser = Some b \<and> y = (Inr S, fin)
        \<and> cars_found = harvested (result_pages (shown b)) (clicks b) \<and> reads b = clicks b \<longrightarrow>
        (\<exists>k\<ge>clicks b. S = harvested (result_pages (shown b)) (Suc k)
           \<and> total_cars \<le> int (card S)
           \<and> (\<forall>j. clicks b \<le> j \<and> j < k \<longrightarrow>
                 int (card (harvested (result_pages (shown b)) (Suc j))) < total_cars
                 \<and> next_arrow (result_pages (shown b) j)
                 \<and> arrow_goes_stale (result_pages (shown b) j))
           \<and> fin = Some (b\<lparr>reads := Suc k, clicks := k\<rparr>)))"
proof (induct total_cars browser cars_found y rule: search_loop.raw_induct[rotated 1, consumes 1])
  case (1 loop total_cars browser cars_found y)
  show ?case
  proof (intro allI impI, elim conjE)
    fix b S fin
    assume br: "browser = Some b" and y: "y = (Inr S, fin)"
      and acc: "cars_found = harvested (result_pages (shown b)) (clicks b)"
      and rd: "reads b = clicks b"
    let ?pages = "result_pages (shown b)"
    let ?n = "clicks b"
    let ?found = "harvested ?pages (Suc ?n)"
    let ?Q = "\<lambda>k. S = harvested ?pages (Suc k)
           \<and> total_cars \<le> int (card S)
           \<and> (\<forall>j. ?n \<le> j \<and> j < k \<longrightarrow>
                 int (card (harvested ?pages (Suc j))) < total_cars
                 \<and> next_arrow (?pages j)
                 \<and> arrow_goes_stale (?pages j))
           \<and> fin = Some (b\<lparr>reads := Suc k, clicks := k\<rparr>)"
    show "\<exists>k\<ge>?n. ?Q k"
    proof (cases "total_cars \<le> int (card ?found)")
      case True
      with 1(2) br y acc rd have "?Q ?n" by (auto simp: Let_def)
      then show ?thesis by blast
    next
      case False
      with 1(2) br y acc rd 
      have na: "next_arrow (?pages ?n)" and st: "arrow_goes_stale (?pages ?n)"
        and rec: "loop total_cars (Some (b\<lparr>reads := Suc ?n, clicks := Suc ?n\<rparr>)) ?found = Some (Inr S, fin)"
        by (auto simp: Let_def split: if_splits)
      from 1(1)[OF rec] obtain k where k: "Suc ?n \<le> k" 
        and S: "S = harvested ?pages (Suc k)" and tot: "total_cars \<le> int (card S)"
        and before: "\<forall>j. Suc ?n \<le> j \<and> j < k \<longrightarrow>
                 int (card (harvested ?pages (Suc j))) < total_cars
                 \<and> next_arrow (?pages j) \<and> arrow_goes_stale (?pages j)"
        and fin: "fin = Some (b\<lparr>reads := Suc k, clicks := k\<rparr>)"
        by force
      have "\<forall>j. ?n \<le> j \<and> j < k \<longrightarrow>
                 int (card (harvested ?pages (Suc j))) < total_cars
                 \<and> next_arrow (?pages j) \<and> arrow_goes_stale (?pages j)"
      proof (intro allI impI)
        fix j assume j: "?n \<le> j \<and> j < k"
        show "int (card (harvested ?pages (Suc j))) < total_cars
                 \<and> next_arrow (?pages j) \<and> arrow_goes_stale (?pages j)"
        proof (cases "j = ?n")
          case True
          with False na st show ?thesis by simp
        next
          case False
          with j have "Suc ?n \<le> j \<and> j < k" by arith
          with before show ?thesis by blast
        qed
      qed
      with k S tot fin have "?Q k" by simp
      moreover from k have "?n \<le> k" by arith
      ultimately show ?thesis by blast
    qed
  qed
qed

text \<open>Conversely, the loop returns as soon as a read meets the threshold.\<close>

lemma search_loop_complete:
  assumes "total_cars \<le> int (card (harvested (result_pages (shown b)) (Suc k)))"
    and "\<forall>j. clicks b \<le> j \<and> j < k \<longrightarrow>
                 int (card (harvested (result_pages (shown b)) (Suc j))) < total_cars
                 \<and> next_arrow (result_pages (shown b) j)
                 \<and> arrow_goes_stale (result_pages (shown b) j)"
    and "clicks b \<le> k" and "reads b = clicks b"
  shows "search_loop total_cars (Some b) (harvested (result_pages (shown b)) (clicks b))
     = Some (Inr (harvested (result_pages (shown b)) (Suc k)), Some (b\<lparr>reads := Suc k, clicks := k\<rparr>))"
  using assms
proof (induction "k - clicks b" arbitrary: b)
  case 0
  then have "clicks b = k" by simp
  with 0 show ?case by (subst search_loop.simps) (simp add: Let_def)
next
  case (Suc d)
  let ?b = "b\<lparr>reads := Suc (clicks b), clicks := Suc (clicks b)\<rparr>"
  from Suc.hyps(2) have lt: "clicks b < k" by arith
  with Suc.prems(2) have now: "int (card (harvested (result_pages (shown b)) (Suc (clicks b)))) < total_cars"
    "next_arrow (result_pages (shown b) (clicks b))" "arrow_goes_stale (result_pages (shown b) (clicks b))"
    by auto
  have "search_loop total_cars (Some ?b) (harvested (result_pages (shown ?b)) (clicks ?b))
     = Some (Inr (harvested (result_pages (shown ?b)) (Suc k)), Some (?b\<lparr>reads := Suc k, clicks := k\<rparr>))"
  proof (rule Suc.hyps(1))
    show "d = k - clicks ?b" using Suc.hyps(2) by simp
    show "total_cars \<le> int (card (harvested (result_pages (shown ?b)) (Suc k)))" using Suc.prems(1) by simp
    show "\<forall>j. clicks ?b \<le> j \<and> j < k \<longrightarrow>
                 int (card (harvested (result_pages (shown ?b)) (Suc j))) < total_cars
                 \<and> next_arrow (result_pages (shown ?b) j)
                 \<and> arrow_goes_stale (result_pages (shown ?b) j)" using Suc.prems(2) by simp
    show "clicks ?b \<le> k" using lt by simp
    show "reads ?b = clicks ?b" by simp
  qed
  with now Suc.prems(4) show ?case
    by (subst search_loop.simps) (simp add: Let_def)
qed

lemma search_one_car_type_normal:
  "search_one_car_type web next_car = Some (Inr cars_found, fin) \<longleftrightarrow>
     (\<exists>total_cars site actual_total b.
        py_int (tup_total next_car) = Inr total_cars
      \<and> web (search_url (tup_make next_car) (tup_model next_car)) = Some site
      \<and> read_actual_total site = Inr actual_total
      \<and> search_loop total_cars (Some \<lparr>shown = site, clicks = 0, reads = 0, closed = False\<rparr>) {}
            = Some (Inr cars_found, b)
      \<and> fin = clean_up b)"
  by (auto simp: search_one_car_type_def open_browser_def
      split: sum.splits option.splits prod.splits)

subsection \<open>The claims on \<open>search_one_car_type\<close>\<close>

lemma py_int_small [simp]:
  "py_int ''0'' = Inr 0" "py_int ''1'' = Inr 1" "py_int ''2'' = Inr 2" "py_int ''5'' = Inr 5"
  "py_int ''7'' = Inr 7" "py_int ''120'' = Inr 120"
  by (simp_all add: py_int_def strip_def is_space_def is_digit_def digits_value_def)

lemma read_actual_total_samples [simp]:
  "read_actual_total fiesta_site = Inr 120" "read_actual_total a3_site = Inr 7"
  "read_actual_total niva_site = Inr 1" "read_actual_total short_site = Inr 1"
  by (simp_all add: read_actual_total_def fiesta_site_def a3_site_def niva_site_def
        short_site_def py_index_def)

text \<open>
  C1. \<open>search_one_car_type\<close> returns a set exactly when the CSV total and the results
  header parse, the browser opens, and there is a page read \<open>k\<close> at which the set
  collected so far has at least \<open>total_cars\<close> members while after every earlier read it
  had fewer (and the arrow was there and went stale). The set returned is the one
  collected at that read, the arrow has been clicked \<open>k\<close> times and never after the
  threshold was met, and the website's own total \<open>actual_total\<close> plays no part in where
  the loop stops.
\<close>

theorem search_one_car_type_stops_at_threshold:
  "search_one_car_type web next_car = Some (Inr cars_found, fin) \<longleftrightarrow>
     (\<exists>total_cars site actual_total k.
        py_int (tup_total next_car) = Inr total_cars
      \<and> web (search_url (tup_make next_car) (tup_model next_car)) = Some site
      \<and> read_actual_total site = Inr actual_total
      \<and> total_cars \<le> int (card (harvested (result_pages site) (Suc k)))
      \<and> (\<forall>j<k. int (card (harvested (result_pages site) (Suc j))) < total_cars
               \<and> next_arrow (result_pages site j)
               \<and> arrow_goes_stale (result_pages site j))
      \<and> cars_found = harvested (result_pages site) (Suc k)
      \<and> fin = Some \<lparr>shown = site, clicks = k, reads = Suc k, closed = True\<rparr>)"
  (is "?L \<longleftrightarrow> ?R")
proof
  assume ?L
  then obtain total_cars site actual_total b where
    tot: "py_int (tup_total next_car) = Inr total_cars"
    and web: "web (search_url (tup_make next_car) (tup_model next_car)) = Some site"
    and hdr: "read_actual_total site = Inr actual_total"
    and loop: "search_loop total_cars (Some \<lparr>shown = site, clicks = 0, reads = 0, closed = False\<rparr>) {}
            = Some (Inr cars_found, b)"
    and fin: "fin = clean_up b"
    unfolding search_one_car_type_normal by blast
  let ?b0 = "\<lparr>shown = site, clicks = 0, reads = 0, closed = False\<rparr>"
  from search_loop_sound[OF loop, rule_format, of ?b0 cars_found b]
  obtain k where "cars_found = harvested (result_pages site) (Suc k)"
    "total_cars \<le> int (card cars_found)"
    "\<forall>j. j < k \<longrightarrow> int (card (harvested (result_pages site) (Suc j))) < total_cars
         \<and> next_arrow (result_pages site j) \<and> arrow_goes_stale (result_pages site j)"
    "b = Some (?b0\<lparr>reads := Suc k, clicks := k\<rparr>)"
    by auto
  with tot web hdr fin show ?R
    by (auto simp: clean_up_def)
next
  assume ?R
  then obtain total_cars site actual_total k where
    tot: "py_int (tup_total next_car) = Inr total_cars"
    and web: "web (search_url (tup_make next_car) (tup_model next_car)) = Some site"
    and hdr: "read_actual_total site = Inr actual_total"
    and reach: "total_cars \<le> int (card (harvested (result_pages site) (Suc k)))"
    and before: "\<forall>j<k. int (card (harvested (result_pages site) (Suc j))) < total_cars
               \<and> next_arrow (result_pages site j) \<and> arrow_goes_stale (result_pages site j)"
    and res: "cars_found = harvested (result_pages site) (Suc k)"
    and fin: "fin = Some \<lparr>shown = site, clicks = k, reads = Suc k, closed = True\<rparr>"
    by blast
  let ?b0 = "\<lparr>shown = site, clicks = 0, reads = 0, closed = False\<rparr>"
  have "search_loop total_cars (Some ?b0) (harvested (result_pages (shown ?b0)) (clicks ?b0))
     = Some (Inr (harvested (result_pages (shown ?b0)) (Suc k)), Some (?b0\<lparr>reads := Suc k, clicks := k\<rparr>))"
    by (rule search_loop_complete) (use reach before in auto)
  then have "search_loop total_cars (Some ?b0) {} = Some (Inr cars_found, Some (?b0\<lparr>reads := Suc k, clicks := k\<rparr>))"
    using res by simp
  with tot web hdr fin show ?L
    unfolding search_one_car_type_normal by (auto simp: clean_up_def)
qed

theorem search_one_car_type_stops_at_threshold_witness:
  "search_one_car_type (\<lambda>url. Some a3_site) a3_car =
     Some (Inr {''201910012835451'', ''201910012835452''},
           Some \<lparr>shown = a3_site, clicks = 1, reads = 2, closed = True\<rparr>)"
proof -
  have "\<exists>total_cars site actual_total k.
        py_int (tup_total a3_car) = Inr total_cars
      \<and> (\<lambda>url. Some a3_site) (search_url (tup_make a3_car) (tup_model a3_car)) = Some site
      \<and> read_actual_total site = Inr actual_total
      \<and> total_cars \<le> int (card (harvested (result_pages site) (Suc k)))
      \<and> (\<forall>j<k. int (card (harvested (result_pages site) (Suc j))) < total_cars
               \<and> next_arrow (result_pages site j)
               \<and> arrow_goes_stale (result_pages site j))
      \<and> {''201910012835451'', ''201910012835452''} = harvested (result_pages site) (Suc k)
      \<and> Some \<lparr>shown = a3_site, clicks = 1, reads = 2, closed = True\<rparr>
          = Some \<lparr>shown = site, clicks = k, reads = Suc k, closed = True\<rparr>"
    apply (rule exI[of _ 2], rule exI[of _ a3_site], rule exI[of _ 7], rule exI[of _ 1])
    apply (simp add: a3_car_def)
    apply (simp add: a3_site_def pages_of_def turning_page_def last_page_def card_insert_if)
    apply auto
    done
  then show ?thesis
    by (rule search_one_car_type_stops_at_threshold[THEN iffD2])
qed

text \<open>
  C2 (the code departs from the claim). When the browser cannot be opened,
  \<open>open_browser\<close> returns \<open>None\<close> and the lookup of the results count, which comes before
  the loop and its \<open>browser is not None\<close> test, raises \<open>AttributeError\<close>: the harvest
  does not return the empty set.
\<close>

theorem search_one_car_type_unopened_raises:
  "search_one_car_type (\<lambda>url. None) fiesta_car = Some (Inl AttributeError, None)"
  by (simp add: search_one_car_type_def fiesta_car_def open_browser_def)

text \<open>
  C5 as stated fails: with an expected count of 0 the loop still reads the first page
  before it tests the threshold, and returns what that page lists.
\<close>

theorem zero_expected_counterexample:
  "search_one_car_type (\<lambda>url. Some niva_site) none_expected_car =
     Some (Inr {''201910012835451''},
           Some \<lparr>shown = niva_site, clicks = 0, reads = 1, closed = True\<rparr>)
   \<and> {''201910012835451''} \<noteq> ({} :: string set)"
  by (simp add: search_one_car_type_def none_expected_car_def open_browser_def
        search_loop.simps clean_up_def)
    (simp add: niva_site_def pages_of_def last_page_def)

text \<open>
  C5, amended. For a query whose expected count is 0, whose browser opens and whose
  results header parses, the harvest returns the identifiers listed on the first result
  page (the empty set exactly when that page lists none), after one page read and
  without a click on the arrow.
\<close>

theorem zero_expected_returns_first_page:
  assumes "py_int (tup_total next_car) = Inr 0"
    and "web (search_url (tup_make next_car) (tup_model next_car)) = Some site"
    and "read_actual_total site = Inr actual_total"
  shows "search_one_car_type web next_car =
           Some (Inr (set (result_ids (result_pages site 0))),
                 Some \<lparr>shown = site, clicks = 0, reads = 1, closed = True\<rparr>)
         \<and> (set (result_ids (result_pages site 0)) = {} \<longleftrightarrow> result_ids (result_pages site 0) = [])"
  using assms
  by (simp add: search_one_car_type_def open_browser_def search_loop.simps clean_up_def)

theorem zero_expected_returns_first_page_witness:
  "search_one_car_type (\<lambda>url. Some short_site) none_expected_car =
     Some (Inr {''A''}, Some \<lparr>shown = short_site, clicks = 0, reads = 1, closed = True\<rparr>)"
proof -
  have "py_int (tup_total none_expected_car) = Inr 0"
    by (simp add: none_expected_car_def)
  moreover have "(\<lambda>url. Some short_site)
      (search_url (tup_make none_expected_car) (tup_model none_expected_car)) = Some short_site"
    by simp
  moreover have "read_actual_total short_site = Inr 1"
    by simp
  ultimately have "search_one_car_type (\<lambda>url. Some short_site) none_expected_car =
           Some (Inr (set (result_ids (result_pages short_site 0))),
                 Some \<lparr>shown = short_site, clicks = 0, reads = 1, closed = True\<rparr>)"
    using zero_expected_returns_first_page
      [where next_car = none_expected_car and web = "\<lambda>url. Some short_site"
         and site = short_site and actual_total = 1]
    by simp
  then show ?thesis
    by (simp add: short_site_def pages_of_def last_page_def)
qed

text \<open>
  C7 as stated fails: the scenario fixes the query and the two pages, not the results
  header. \<open>search_one_car_type\<close> parses that header before the loop, so on the same two
  pages under the header "1,234 cars found" it raises \<open>ValueError\<close> before any page is
  read.
\<close>

theorem fiesta_two_pages_counterexample:
  "set (result_ids (result_pages comma_site 0)) = {''A'', ''B'', ''C''}
   \<and> set (result_ids (result_pages comma_site 1)) = {''C'', ''D'', ''E''}
   \<and> search_one_car_type (\<lambda>url. Some comma_site) fiesta_car =
       Some (Inl ValueError,
             Some \<lparr>shown = comma_site, clicks = 0, reads = 0, closed = False\<rparr>)"
proof -
  have "py_int ''1,234'' = Inl ValueError"
    by (simp add: py_int_def strip_def is_space_def is_digit_def)
  then have "read_actual_total comma_site = Inl ValueError"
    by (simp add: read_actual_total_def comma_site_def py_index_def)
  then have "search_one_car_type (\<lambda>url. Some comma_site) fiesta_car =
       Some (Inl ValueError,
             Some \<lparr>shown = comma_site, clicks = 0, reads = 0, closed = False\<rparr>)"
    by (simp add: search_one_car_type_def fiesta_car_def open_browser_def)
  then show ?thesis
    by (simp add: comma_site_def pages_of_def turning_page_def)
qed

text \<open>
  C7, amended. The query ("Ford", "Fiesta", 5) on a listing that opens, whose results
  header parses as an integer, whose first page shows A, B, C and whose second page
  shows C, D, E (the arrow of the first page being there and going stale): the harvest
  returns exactly the five identifiers, after two page reads and one click, so no third
  page is asked for.
\<close>

theorem fiesta_two_pages:
  assumes "web (search_url ''Ford'' ''Fiesta'') = Some site"
    and "read_actual_total site = Inr actual_total"
    and "set (result_ids (result_pages site 0)) = {''A'', ''B'', ''C''}"
    and "set (result_ids (result_pages site 1)) = {''C'', ''D'', ''E''}"
    and "next_arrow (result_pages site 0)"
    and "arrow_goes_stale (result_pages site 0)"
  shows "search_one_car_type web
           \<lparr>tup_make = ''Ford'', tup_model = ''Fiesta'', tup_total = ''5''\<rparr> =
         Some (Inr {''A'', ''B'', ''C'', ''D'', ''E''},
               Some \<lparr>shown = site, clicks = 1, reads = 2, closed = True\<rparr>)"
proof -
  let ?b0 = "\<lparr>shown = site, clicks = 0, reads = 0, closed = False\<rparr>"
  let ?b1 = "\<lparr>shown = site, clicks = Suc 0, reads = Suc 0, closed = False\<rparr>"
  have three: "card {''A'', ''B'', ''C''} = 3"
    by simp
  have five: "{''A'', ''B'', ''C''} \<union> {''C'', ''D'', ''E''} = {''A'', ''B'', ''C'', ''D'', ''E''}"
    by auto
  have card5: "card {''A'', ''B'', ''C'', ''D'', ''E''} = 5"
    by simp
  have page1: "set (result_ids (result_pages site (Suc 0))) = {''C'', ''D'', ''E''}"
    using assms(4) by simp
  have second: "search_loop 5 (Some ?b1) {''A'', ''B'', ''C''} =
      Some (Inr {''A'', ''B'', ''C'', ''D'', ''E''},
            Some \<lparr>shown = site, clicks = Suc 0, reads = Suc (Suc 0), closed = False\<rparr>)"
    by (subst search_loop.simps)
      (simp add: Let_def page1 five card5 del: Un_insert_left Un_insert_right)
  have "search_loop 5 (Some ?b0) {} =
      Some (Inr {''A'', ''B'', ''C'', ''D'', ''E''},
            Some \<lparr>shown = site, clicks = Suc 0, reads = Suc (Suc 0), closed = False\<rparr>)"
    by (subst search_loop.simps) (simp add: Let_def assms(3,5,6) three second)
  with assms(1,2) show ?thesis
    by (simp add: search_one_car_type_def open_browser_def clean_up_def)
qed

theorem fiesta_two_pages_witness:
  "search_one_car_type (\<lambda>url. Some fiesta_site) fiesta_car =
     Some (Inr {''A'', ''B'', ''C'', ''D'', ''E''},
           Some \<lparr>shown = fiesta_site, clicks = 1, reads = 2, closed = True\<rparr>)"
proof -
  have "search_one_car_type (\<lambda>url. Some fiesta_site)
           \<lparr>tup_make = ''Ford'', tup_model = ''Fiesta'', tup_total = ''5''\<rparr> =
         Some (Inr {''A'', ''B'', ''C'', ''D'', ''E''},
               Some \<lparr>shown = fiesta_site, clicks = 1, reads = 2, closed = True\<rparr>)"
  proof (rule fiesta_two_pages)
    show "(\<lambda>url. Some fiesta_site) (search_url ''Ford'' ''Fiesta'') = Some fiesta_site"
      by simp
    show "read_actual_total fiesta_site = Inr 120"
      by simp
    show "set (result_ids (result_pages fiesta_site 0)) = {''A'', ''B'', ''C''}"
      by (simp add: fiesta_site_def pages_of_def turning_page_def)
    show "set (result_ids (result_pages fiesta_site 1)) = {''C'', ''D'', ''E''}"
      by (simp add: fiesta_site_def pages_of_def turning_page_def)
    show "next_arrow (result_pages fiesta_site 0)"
      by (simp add: fiesta_site_def pages_of_def turning_page_def)
    show "arrow_goes_stale (result_pages fiesta_site 0)"
      by (simp add: fiesta_site_def pages_of_def turning_page_def)
  qed
  then show ?thesis
    by (simp add: fiesta_car_def)
qed

section \<open>Properties of the detail-page extractor\<close>

subsection \<open>The marker dispatch\<close>

lemma set_spec_apply:
  "set_spec m t s f = (if (m, f) \<in> set marker_table then Some t else s f)"
  unfolding set_spec_def Let_def marker_table_def
  by (simp split: if_splits)

lemma marker_of_field:
  "(m, f) \<in> set marker_table \<Longrightarrow> (m', f) \<in> set marker_table \<Longrightarrow> m' = m"
  unfolding marker_table_def by auto

lemma dom_default_specs: "dom default_specs = snd ` set marker_table"
  unfolding default_specs_def marker_table_def by auto

lemma dom_set_spec:
  "dom s = snd ` set marker_table \<Longrightarrow> dom (set_spec m t s) = snd ` set marker_table"
  by (force simp: dom_def set_spec_apply split: if_splits)

lemma set_spec_unrecognized: "m \<notin> fst ` set marker_table \<Longrightarrow> set_spec m t s = s"
  by (rule ext) (force simp: set_spec_apply)

lemma dispatch_snoc: "dispatch (entries @ [(m, t)]) = set_spec m t (dispatch entries)"
  by (simp add: dispatch_def)

lemma dispatch_Nil: "dispatch [] = default_specs"
  by (simp add: dispatch_def)

lemma dom_dispatch: "dom (dispatch entries) = snd ` set marker_table"
proof (induction entries rule: rev_induct)
  case Nil
  show ?case by (simp add: dispatch_Nil dom_default_specs)
next
  case (snoc x xs)
  obtain m t where "x = (m, t)" by (cases x)
  with snoc show ?case by (simp add: dispatch_snoc dom_set_spec)
qed

lemma default_specs_Unknown:
  "f \<in> snd ` set marker_table \<Longrightarrow> default_specs f = Some ''Unknown''"
  unfolding default_specs_def marker_table_def by auto

lemma dispatch_last_wins:
  assumes "(marker, field) \<in> set marker_table"
  shows "dispatch entries field =
     Some (case map_of (rev entries) marker of None \<Rightarrow> ''Unknown'' | Some text \<Rightarrow> text)"
proof (induction entries rule: rev_induct)
  case Nil
  from assms have "field \<in> snd ` set marker_table" by force
  then show ?case by (simp add: dispatch_Nil default_specs_Unknown)
next
  case (snoc x xs)
  obtain m t where x: "x = (m, t)" by (cases x)
  show ?case
  proof (cases "m = marker")
    case True
    with x assms show ?thesis by (simp add: dispatch_snoc set_spec_apply)
  next
    case False
    with assms have "(m, field) \<notin> set marker_table"
      using marker_of_field by blast
    with x False snoc show ?thesis by (simp add: dispatch_snoc set_spec_apply)
  qed
qed

lemma dispatch_ignores_unrecognized:
  "dispatch (filter (\<lambda>(marker, text). marker \<in> fst ` set marker_table) entries) = dispatch entries"
proof (induction entries rule: rev_induct)
  case Nil
  show ?case by simp
next
  case (snoc x xs)
  obtain m t where x: "x = (m, t)" by (cases x)
  with snoc show ?case
    by (cases "m \<in> fst ` set marker_table")
      (simp_all add: dispatch_snoc set_spec_unrecognized)
qed

lemma read_specs_fold:
  "map icon_type_of lis = map Inr markers \<Longrightarrow>
     read_specs lis s =
       Inr (fold (\<lambda>(marker, text). set_spec marker text) (zip markers (map spec_text lis)) s)"
proof (induction lis arbitrary: markers s)
  case Nil
  then show ?case by simp
next
  case (Cons e es)
  then obtain m ms where "markers = m # ms" "icon_type_of e = Inr m"
    "map icon_type_of es = map Inr ms"
    by (cases markers) auto
  with Cons.IH[of ms] show ?case by simp
qed

subsection \<open>Indexing\<close>

lemma py_index_nat:
  "py_index xs (int i) = (if i < length xs then Inr (xs ! i) else Inl IndexError)"
  by (simp add: py_index_def)

lemma py_index_1: "py_index xs 1 = (if 1 < length xs then Inr (xs ! 1) else Inl IndexError)"
  using py_index_nat[of xs 1] by simp

lemma py_index_last:
  "py_index xs (- 1) = (if xs = [] then Inl IndexError else Inr (last xs))"
proof (cases "xs = []")
  case True
  then show ?thesis by (simp add: py_index_def)
next
  case False
  then have "nat (int (length xs) - 1) = length xs - 1" by simp
  with False show ?thesis
    by (simp add: py_index_def last_conv_nth)
qed

lemma py_index_in_set: "py_index xs i = Inr x \<Longrightarrow> x \<in> set xs"
  by (auto simp: py_index_def Let_def split: if_splits)

subsection \<open>The sections of \<open>scrape_one_car\<close>\<close>

lemma second_span_nat:
  "second_span items (int i) =
     (if i < length items \<and> 1 < length (items ! i) then Inr (items ! i ! 1)
      else Inl IndexError)"
  by (simp add: second_span_def py_index_nat py_index_1)

lemma second_span_012:
  "second_span items 0 =
     (if 0 < length items \<and> 1 < length (items ! 0) then Inr (items ! 0 ! 1) else Inl IndexError)"
  "second_span items 1 =
     (if 1 < length items \<and> 1 < length (items ! 1) then Inr (items ! 1 ! 1) else Inl IndexError)"
  "second_span items 2 =
     (if 2 < length items \<and> 1 < length (items ! 2) then Inr (items ! 2 ! 1) else Inl IndexError)"
  using second_span_nat[of items 0] second_span_nat[of items 1] second_span_nat[of items 2]
  by simp_all

lemma below_3: "(\<exists>i<3. P i) \<longleftrightarrow> P (0::nat) \<or> P 1 \<or> P 2"
proof
  assume "\<exists>i<3. P i"
  then obtain i where "i < 3" "P i" by blast
  then have "i = 0 \<or> i = 1 \<or> i = 2" by arith
  with \<open>P i\<close> show "P 0 \<or> P 1 \<or> P 2" by blast
next
  assume "P 0 \<or> P 1 \<or> P 2"
  then show "\<exists>i<3. P i" by (metis zero_less_numeral one_less_numeral_iff semiring_norm(77) lessI numeral_3_eq_3 numeral_2_eq_2)
qed

text \<open>
  The vehicle check list: the defaults when the list is absent, the second spans of the
  first three items when these are there, \<open>IndexError\<close> otherwise.
\<close>

lemma read_vehicle_check_eq:
  "read_vehicle_check page =
     (case check_list page of
        None \<Rightarrow> Inr (''Unknown'', ''Unknown'', ''Unknown'')
      | Some items \<Rightarrow>
          if length items < 3 \<or> (\<exists>i<3. length (items ! i) < 2) then Inl IndexError
          else Inr (items ! 0 ! 1, items ! 2 ! 1, items ! 1 ! 1))"
  by (auto simp: read_vehicle_check_def second_span_012 below_3 split: option.splits)

lemma read_required_eq:
  "read_required page = Inr r \<longleftrightarrow>
     (\<exists>d p a. heading_title page = Some d \<and> cash_price page = Some p \<and> seller_name page = Some a
        \<and> r = (d, p, if a then ''Dealer'' else ''Private''))"
  by (auto simp: read_required_def split: option.splits)

text \<open>The loop over the entries keeps the keys of the dict and stores entry texts only.\<close>

lemma read_specs_keys:
  "read_specs lis s = Inr cs \<Longrightarrow> dom s = snd ` set marker_table \<Longrightarrow>
     dom cs = snd ` set marker_table"
proof (induction lis arbitrary: s)
  case Nil
  then show ?case by simp
next
  case (Cons e es)
  then show ?case
    by (auto split: sum.splits dest!: Cons.IH simp: dom_set_spec)
qed

lemma read_specs_values:
  "read_specs lis s = Inr cs \<Longrightarrow> cs f = Some v \<Longrightarrow> s f = Some v \<or> v \<in> spec_text ` set lis"
proof (induction lis arbitrary: s)
  case Nil
  then show ?case by simp
next
  case (Cons e es)
  from Cons.prems obtain m where m: "icon_type_of e = Inr m"
    and rest: "read_specs es (set_spec m (spec_text e) s) = Inr cs"
    by (auto split: sum.splits)
  from Cons.IH[OF rest Cons.prems(2)]
  show ?case
    by (auto simp: set_spec_apply split: if_splits)
qed

lemma read_key_specs_keys:
  assumes "read_key_specs page = Inr cs"
  shows "dom cs = snd ` set marker_table"
proof (cases "key_specifications page")
  case None
  with assms show ?thesis by (simp add: read_key_specs_def dom_default_specs)
next
  case (Some lis)
  with assms have "read_specs lis default_specs = Inr cs" by (simp add: read_key_specs_def)
  then show ?thesis by (rule read_specs_keys) (rule dom_default_specs)
qed

lemma read_key_specs_values:
  assumes "read_key_specs page = Inr cs" and "cs f = Some v"
  shows "v = ''Unknown'' \<or> v \<in> page_texts page"
proof (cases "key_specifications page")
  case None
  with assms have "default_specs f = Some v" by (simp add: read_key_specs_def)
  then have "f \<in> dom default_specs" by blast
  then have "default_specs f = Some ''Unknown''"
    by (simp add: dom_default_specs default_specs_Unknown)
  with \<open>default_specs f = Some v\<close> show ?thesis by simp
next
  case (Some lis)
  with assms have rs: "read_specs lis default_specs = Inr cs" by (simp add: read_key_specs_def)
  from read_specs_values[OF rs assms(2)] show ?thesis
  proof
    assume d: "default_specs f = Some v"
    then have "f \<in> dom default_specs" by blast
    then have "default_specs f = Some ''Unknown''"
      by (simp add: dom_default_specs default_specs_Unknown)
    with d show ?thesis by simp
  next
    assume "v \<in> spec_text ` set lis"
    with Some show ?thesis by (simp add: page_texts_def)
  qed
qed

lemma read_emission_values:
  "read_emission page = Inr v \<Longrightarrow> v = ''Unknown'' \<or> v \<in> page_texts page"
  by (auto simp: read_emission_def page_texts_def split: option.splits sum.splits
      dest!: py_index_in_set)

lemma read_vehicle_check_values:
  assumes "read_vehicle_check page = Inr (a, b, c)" and "v \<in> {a, b, c}"
  shows "v = ''Unknown'' \<or> v \<in> page_texts page"
proof (cases "check_list page")
  case None
  with assms show ?thesis by (auto simp: read_vehicle_check_eq)
next
  case (Some items)
  with assms(1) have ok: "\<not> (length items < 3 \<or> (\<exists>i<3. length (items ! i) < 2))"
    and abc: "a = items ! 0 ! 1 \<and> b = items ! 2 ! 1 \<and> c = items ! 1 ! 1"
    by (simp_all add: read_vehicle_check_eq split: if_splits)
  have "\<And>i. i < 3 \<Longrightarrow> items ! i ! 1 \<in> set (concat items)"
  proof -
    fix i :: nat assume i: "i < 3"
    with ok have "i < length items" "\<not> length (items ! i) < 2" by auto
    then have "items ! i \<in> set items" "1 < length (items ! i)" by auto
    then have "items ! i ! 1 \<in> set (items ! i)" by simp
    with \<open>items ! i \<in> set items\<close> show "items ! i ! 1 \<in> set (concat items)" by auto
  qed
  from this[of 0] this[of 1] this[of 2] abc assms(2) Some show ?thesis
    by (auto simp: page_texts_def)
qed

text \<open>Building the Advertisement never fails on a dict that has the seven keys.\<close>

lemma build_ad_ok:
  assumes "dom cs = snd ` set marker_table"
  shows "build_ad new_Advertisement url (d, p, s) cs em (st, wo, sc) =
     Inr \<lparr>hyperlink = url, description = d, seller_type = s, price = p,
          ad_make = '''', model = '''', year = the (cs ''year''),
          mileage = the (cs ''mileage''), body_style = the (cs ''body_style''),
          co2emission = em, doors = the (cs ''doors''),
          transmission = the (cs ''transmission''), was_stolen = st,
          was_write_off = wo, was_scrapped = sc,
          engine_size = the (cs ''engine_size''), fuel_type = the (cs ''fuel_type'')\<rparr>"
proof -
  have keys: "''year'' \<in> dom cs" "''mileage'' \<in> dom cs" "''body_style'' \<in> dom cs"
    "''doors'' \<in> dom cs" "''transmission'' \<in> dom cs" "''engine_size'' \<in> dom cs"
    "''fuel_type'' \<in> dom cs"
    unfolding assms marker_table_def by simp_all
  then obtain v1 v2 v3 v4 v5 v6 v7 where
    "cs ''year'' = Some v1" "cs ''mileage'' = Some v2" "cs ''body_style'' = Some v3"
    "cs ''doors'' = Some v4" "cs ''transmission'' = Some v5" "cs ''engine_size'' = Some v6"
    "cs ''fuel_type'' = Some v7"
    by blast
  then show ?thesis
    by (simp add: build_ad_def py_getitem_def new_Advertisement_def)
qed

text \<open>
  \<open>scrape_one_car\<close> returns an Advertisement exactly when the browser opens and the four
  sections are read without an exception; the browser is then closed.
\<close>

lemma scrape_one_car_ok:
  assumes "web (BASE_URL @ ''/classified/advert/'' @ next_car) = Some page"
    and "read_required page = Inr (d, p, s)"
    and "read_key_specs page = Inr cs"
    and "read_emission page = Inr em"
    and "read_vehicle_check page = Inr (st, wo, sc)"
  shows "scrape_one_car web next_car =
     (Inr \<lparr>hyperlink = BASE_URL @ ''/classified/advert/'' @ next_car,
           description = d, seller_type = s, price = p,
           ad_make = '''', model = '''', year = the (cs ''year''),
           mileage = the (cs ''mileage''), body_style = the (cs ''body_style''),
           co2emission = em, doors = the (cs ''doors''),
           transmission = the (cs ''transmission''), was_stolen = st,
           was_write_off = wo, was_scrapped = sc,
           engine_size = the (cs ''engine_size''), fuel_type = the (cs ''fuel_type'')\<rparr>,
      Some \<lparr>shown = page, clicks = 0, reads = 0, closed = True\<rparr>)"
  using assms build_ad_ok[OF read_key_specs_keys[OF assms(3)]]
  by (simp add: scrape_one_car_def open_browser_def clean_up_def Let_def)

lemma scrape_one_car_returns:
  assumes "scrape_one_car web next_car = (Inr ad, fin)"
  shows "\<exists>page d p s cs em st wo sc.
      web (BASE_URL @ ''/classified/advert/'' @ next_car) = Some page
    \<and> read_required page = Inr (d, p, s)
    \<and> read_key_specs page = Inr cs
    \<and> read_emission page = Inr em
    \<and> read_vehicle_check page = Inr (st, wo, sc)"
  using assms
  by (auto simp: scrape_one_car_def open_browser_def clean_up_def Let_def
      split: option.splits sum.splits)

lemma scrape_one_car_raises:
  assumes "scrape_one_car web next_car = (Inl e, fin)"
  shows "fin = None \<or> (\<exists>b. fin = Some b \<and> \<not> closed b)"
  using assms
  by (auto simp: scrape_one_car_def open_browser_def clean_up_def Let_def
      split: option.splits sum.splits)

subsection \<open>The sample pages, evaluated\<close>

lemma icon_type_of_spec_li:
  "icon_type_of (spec_li ''ks-manufactured-year'' t) = Inr ''ks-manufactured-year''"
  "icon_type_of (spec_li ''ks-doors'' t) = Inr ''ks-doors''"
  "icon_type_of (spec_li ''ks-fuel-type'' t) = Inr ''ks-fuel-type''"
  "icon_type_of (spec_li ''ks-mileage'' t) = Inr ''ks-mileage''"
  "icon_type_of (spec_li ''ks-sunroof'' t) = Inr ''ks-sunroof''"
  by (simp_all add: icon_type_of_def spec_li_def py_index_1)

lemma read_required_samples:
  "read_required bare_page = Inr (''Audi A3 1.4 TFSI'', ''12,250'', ''Private'')"
  "read_required full_page = Inr (''Ford Fiesta 1.0T Zetec'', ''9,500'', ''Dealer'')"
  "read_required untitled_page = Inr ('''', ''9,500'', ''Dealer'')"
  "read_required four_checks_page = Inr (''Ford Fiesta 1.0T Zetec'', ''9,500'', ''Dealer'')"
  "read_required two_checks_page = Inr (''Ford Fiesta 1.0T Zetec'', ''9,500'', ''Dealer'')"
  "read_required one_span_page = Inr (''Ford Fiesta 1.0T Zetec'', ''9,500'', ''Dealer'')"
  "read_required headless_page = Inl NoSuchElementException"
  by (simp_all add: read_required_def bare_page_def full_page_def untitled_page_def
        four_checks_page_def two_checks_page_def one_span_page_def headless_page_def)

lemma read_key_specs_samples:
  "read_key_specs bare_page = Inr (set_spec ''ks-fuel-type'' ''Petrol'' default_specs)"
  "read_key_specs full_page =
     Inr (set_spec ''ks-doors'' ''5 doors''
            (set_spec ''ks-manufactured-year'' ''2017 (67 reg)'' default_specs))"
  "read_key_specs untitled_page = Inr default_specs"
  "read_key_specs four_checks_page = Inr default_specs"
  "read_key_specs two_checks_page = Inr default_specs"
  "read_key_specs one_span_page = Inr default_specs"
  by (simp_all add: read_key_specs_def bare_page_def full_page_def untitled_page_def
        four_checks_page_def two_checks_page_def one_span_page_def
        icon_type_of_spec_li)
    (simp_all add: spec_li_def)

lemma read_emission_samples:
  "read_emission bare_page = Inr ''Unknown''"
  "read_emission full_page = Inr ''99g/km''"
  "read_emission untitled_page = Inr ''Unknown''"
  "read_emission four_checks_page = Inr ''Unknown''"
  "read_emission two_checks_page = Inr ''Unknown''"
  "read_emission one_span_page = Inr ''Unknown''"
  by (simp_all add: read_emission_def bare_page_def full_page_def untitled_page_def
        four_checks_page_def two_checks_page_def one_span_page_def
        py_index_last py_index_1)

lemma read_vehicle_check_samples:
  "read_vehicle_check bare_page = Inr (''Unknown'', ''Unknown'', ''Unknown'')"
  "read_vehicle_check full_page = Inr (''Clear'', ''Recorded'', ''Clear'')"
  "read_vehicle_check untitled_page = Inr (''Unknown'', ''Unknown'', ''Unknown'')"
  "read_vehicle_check four_checks_page = Inr (''Clear'', ''Clear'', ''Clear'')"
  by (simp_all add: read_vehicle_check_def second_span_012 bare_page_def full_page_def
        untitled_page_def four_checks_page_def)

lemma default_specs_values:
  "the (default_specs ''year'') = ''Unknown''" "the (default_specs ''mileage'') = ''Unknown''"
  "the (default_specs ''body_style'') = ''Unknown''" "the (default_specs ''doors'') = ''Unknown''"
  "the (default_specs ''transmission'') = ''Unknown''"
  "the (default_specs ''engine_size'') = ''Unknown''"
  "the (default_specs ''fuel_type'') = ''Unknown''"
  by (simp_all add: default_specs_def)

lemma bare_page_scrape:
  "scrape_one_car (\<lambda>url. Some bare_page) sample_id =
     (Inr bare_ad, Some \<lparr>shown = bare_page, clicks = 0, reads = 0, closed = True\<rparr>)"
  by (subst scrape_one_car_ok[where page = bare_page, OF _ read_required_samples(1)
        read_key_specs_samples(1) read_emission_samples(1) read_vehicle_check_samples(1)])
    (simp_all add: bare_ad_def BASE_URL_def sample_id_def set_spec_apply marker_table_def default_specs_values)

lemma full_page_scrape:
  "scrape_one_car (\<lambda>url. Some full_page) sample_id =
     (Inr full_ad, Some \<lparr>shown = full_page, clicks = 0, reads = 0, closed = True\<rparr>)"
  by (subst scrape_one_car_ok[where page = full_page, OF _ read_required_samples(2)
        read_key_specs_samples(2) read_emission_samples(2) read_vehicle_check_samples(2)])
    (simp_all add: full_ad_def BASE_URL_def sample_id_def set_spec_apply marker_table_def default_specs_values)

lemma untitled_page_scrape:
  "scrape_one_car (\<lambda>url. Some untitled_page) sample_id =
     (Inr (untitled_ad\<lparr>ad_make := '''', model := ''''\<rparr>),
      Some \<lparr>shown = untitled_page, clicks = 0, reads = 0, closed = True\<rparr>)"
  by (subst scrape_one_car_ok[where page = untitled_page, OF _ read_required_samples(3)
        read_key_specs_samples(3) read_emission_samples(3) read_vehicle_check_samples(3)])
    (simp_all add: untitled_ad_def BASE_URL_def sample_id_def default_specs_values)

lemma four_checks_page_scrape:
  "scrape_one_car (\<lambda>url. Some four_checks_page) sample_id =
     (Inr four_checks_ad,
      Some \<lparr>shown = four_checks_page, clicks = 0, reads = 0, closed = True\<rparr>)"
  by (subst scrape_one_car_ok[where page = four_checks_page, OF _ read_required_samples(4)
        read_key_specs_samples(4) read_emission_samples(4) read_vehicle_check_samples(4)])
    (simp_all add: four_checks_ad_def BASE_URL_def sample_id_def default_specs_values)

lemma headless_page_scrape:
  "scrape_one_car (\<lambda>url. Some headless_page) sample_id =
     (Inl NoSuchElementException,
      Some \<lparr>shown = headless_page, clicks = 0, reads = 0, closed = False\<rparr>)"
  by (simp add: scrape_one_car_def open_browser_def Let_def read_required_samples)

lemma short_site_search:
  "search_one_car_type (\<lambda>url. Some short_site) fiesta_car =
     Some (Inl NoSuchElementException,
           Some \<lparr>shown = short_site, clicks = 0, reads = 1, closed = False\<rparr>)"
  by (simp add: search_one_car_type_def fiesta_car_def open_browser_def search_loop.simps)
    (simp add: short_site_def pages_of_def last_page_def)

lemma a3_site_search:
  "search_one_car_type (\<lambda>url. Some a3_site) a3_car =
     Some (Inr {''201910012835451'', ''201910012835452''},
           Some \<lparr>shown = a3_site, clicks = 1, reads = 2, closed = True\<rparr>)"
proof -
  let ?b0 = "\<lparr>shown = a3_site, clicks = 0, reads = 0, closed = False\<rparr>"
  let ?b1 = "\<lparr>shown = a3_site, clicks = Suc 0, reads = Suc 0, closed = False\<rparr>"
  have second: "search_loop 2 (Some ?b1) {''201910012835451''} =
      Some (Inr {''201910012835451'', ''201910012835452''},
            Some \<lparr>shown = a3_site, clicks = Suc 0, reads = Suc (Suc 0), closed = False\<rparr>)"
    by (subst search_loop.simps)
      (auto simp: Let_def a3_site_def pages_of_def turning_page_def card_insert_if)
  have "search_loop 2 (Some ?b0) {} =
      Some (Inr {''201910012835451'', ''201910012835452''},
            Some \<lparr>shown = a3_site, clicks = Suc 0, reads = Suc (Suc 0), closed = False\<rparr>)"
    by (subst search_loop.simps, subst second[symmetric])
      (simp add: Let_def a3_site_def pages_of_def turning_page_def)
  then show ?thesis
    by (simp add: search_one_car_type_def a3_car_def open_browser_def clean_up_def)
qed

subsection \<open>The claims on \<open>scrape_one_car\<close> and the pipeline\<close>

text \<open>
  C6. The dispatch from marker to field is a function of the list of (marker, text)
  entries: its dict has exactly the seven fields of the table; each field holds the text
  of the last entry that carries its marker, or "Unknown" when no entry does; entries
  whose marker is not in the table change nothing; and it is what the loop of
  \<open>scrape_one_car\<close> computes from entries whose icon types are read as these markers.
\<close>

theorem marker_dispatch:
  "dom (dispatch entries) = snd ` set marker_table
   \<and> (\<forall>(marker, field) \<in> set marker_table.
        dispatch entries field =
          Some (case map_of (rev entries) marker of None \<Rightarrow> ''Unknown'' | Some text \<Rightarrow> text))
   \<and> dispatch (filter (\<lambda>(marker, text). marker \<in> fst ` set marker_table) entries)
        = dispatch entries
   \<and> (\<forall>lis. map icon_type_of lis = map (Inr \<circ> fst) entries
              \<and> map spec_text lis = map snd entries
          \<longrightarrow> read_specs lis default_specs = Inr (dispatch entries))"
proof (intro conjI)
  show "dom (dispatch entries) = snd ` set marker_table"
    by (rule dom_dispatch)
  show "\<forall>(marker, field) \<in> set marker_table.
        dispatch entries field =
          Some (case map_of (rev entries) marker of None \<Rightarrow> ''Unknown'' | Some text \<Rightarrow> text)"
    using dispatch_last_wins by blast
  show "dispatch (filter (\<lambda>(marker, text). marker \<in> fst ` set marker_table) entries)
        = dispatch entries"
    by (rule dispatch_ignores_unrecognized)
  show "\<forall>lis. map icon_type_of lis = map (Inr \<circ> fst) entries
              \<and> map spec_text lis = map snd entries
          \<longrightarrow> read_specs lis default_specs = Inr (dispatch entries)"
  proof (intro allI impI, elim conjE)
    fix lis
    assume icons: "map icon_type_of lis = map (Inr \<circ> fst) entries"
      and texts: "map spec_text lis = map snd entries"
    from icons have "map icon_type_of lis = map Inr (map fst entries)" by simp
    from read_specs_fold[OF this, of default_specs]
    show "read_specs lis default_specs = Inr (dispatch entries)"
      by (simp add: texts dispatch_def zip_map_fst_snd)
  qed
qed

theorem marker_dispatch_witness:
  "dispatch sample_entries ''mileage'' = Some ''20,000 miles''
   \<and> dispatch sample_entries ''doors'' = Some ''5 doors''
   \<and> dispatch sample_entries ''year'' = Some ''Unknown''
   \<and> dom (dispatch sample_entries) =
        {''year'', ''body_style'', ''mileage'', ''engine_size'', ''transmission'',
         ''fuel_type'', ''doors''}
   \<and> dispatch [(''ks-mileage'', ''10,000 miles''), (''ks-doors'', ''5 doors''),
                (''ks-mileage'', ''20,000 miles'')] = dispatch sample_entries
   \<and> read_specs (map (\<lambda>(marker, text). spec_li marker text) sample_entries) default_specs
        = Inr (dispatch sample_entries)"
proof -
  note all = marker_dispatch[of sample_entries]
  from all have "\<forall>(marker, field) \<in> set marker_table.
        dispatch sample_entries field =
          Some (case map_of (rev sample_entries) marker of None \<Rightarrow> ''Unknown'' | Some text \<Rightarrow> text)"
    by blast
  then have fields: "dispatch sample_entries ''mileage'' = Some ''20,000 miles''"
    "dispatch sample_entries ''doors'' = Some ''5 doors''"
    "dispatch sample_entries ''year'' = Some ''Unknown''"
    by (simp_all add: marker_table_def sample_entries_def)
  from all have "dom (dispatch sample_entries) = snd ` set marker_table"
    by blast
  then have keys: "dom (dispatch sample_entries) =
        {''year'', ''body_style'', ''mileage'', ''engine_size'', ''transmission'',
         ''fuel_type'', ''doors''}"
    by (simp add: marker_table_def)
  from all have "dispatch (filter (\<lambda>(marker, text). marker \<in> fst ` set marker_table)
      sample_entries) = dispatch sample_entries"
    by blast
  then have filtered: "dispatch [(''ks-mileage'', ''10,000 miles''), (''ks-doors'', ''5 doors''),
                (''ks-mileage'', ''20,000 miles'')] = dispatch sample_entries"
    by (simp add: marker_table_def sample_entries_def)
  from all have "\<forall>lis. map icon_type_of lis = map (Inr \<circ> fst) sample_entries
              \<and> map spec_text lis = map snd sample_entries
          \<longrightarrow> read_specs lis default_specs = Inr (dispatch sample_entries)"
    by blast
  moreover have "map icon_type_of (map (\<lambda>(marker, text). spec_li marker text) sample_entries)
      = map (Inr \<circ> fst) sample_entries"
    by (simp add: sample_entries_def icon_type_of_spec_li)
  moreover have "map spec_text (map (\<lambda>(marker, text). spec_li marker text) sample_entries)
      = map snd sample_entries"
    by (simp add: sample_entries_def spec_li_def)
  ultimately have loop: "read_specs (map (\<lambda>(marker, text). spec_li marker text) sample_entries)
      default_specs = Inr (dispatch sample_entries)"
    by blast
  from fields keys filtered loop show ?thesis
    by blast
qed

text \<open>
  C8. The Advertisement that \<open>scrape_one_car\<close> returns for an identifier has as its
  hyperlink the base URL, then \<open>/classified/advert/\<close>, then the identifier.
\<close>

theorem scrape_one_car_hyperlink:
  assumes "scrape_one_car web next_car = (Inr ad, fin)"
  shows "hyperlink ad = BASE_URL @ ''/classified/advert/'' @ next_car"
proof -
  from scrape_one_car_returns[OF assms] obtain page d p s cs em st wo sc where
    "web (BASE_URL @ ''/classified/advert/'' @ next_car) = Some page"
    "read_required page = Inr (d, p, s)" "read_key_specs page = Inr cs"
    "read_emission page = Inr em" "read_vehicle_check page = Inr (st, wo, sc)"
    by blast
  from scrape_one_car_ok[where web = web and next_car = next_car, OF this] assms show ?thesis
    by auto
qed

theorem scrape_one_car_hyperlink_witness:
  "scrape_one_car (\<lambda>url. Some full_page) sample_id =
     (Inr full_ad, Some \<lparr>shown = full_page, clicks = 0, reads = 0, closed = True\<rparr>)
   \<and> hyperlink full_ad = ''https://www.autotrader.co.uk'' @ ''/classified/advert/'' @ ''201910012835451''"
  using scrape_one_car_hyperlink[OF full_page_scrape] full_page_scrape
  by (simp add: BASE_URL_def sample_id_def)

text \<open>
  C9 as stated fails: with both optional sections absent the extraction can still
  raise in the key specifications. Here the icon link of the one entry has no \<open>#\<close>, so
  \<open>icon_link.split('#')[1]\<close> raises \<open>IndexError\<close>.
\<close>

theorem missing_optional_sections_counterexample:
  "tech_specs no_hash_page = None \<and> check_list no_hash_page = None
   \<and> heading_title no_hash_page = Some ''Ford Fiesta 1.0T Zetec''
   \<and> cash_price no_hash_page = Some ''9,500''
   \<and> seller_name no_hash_page = Some True
   \<and> scrape_one_car (\<lambda>url. Some no_hash_page) sample_id =
       (Inl IndexError,
        Some \<lparr>shown = no_hash_page, clicks = 0, reads = 0, closed = False\<rparr>)"
proof -
  have "read_required no_hash_page = Inr (''Ford Fiesta 1.0T Zetec'', ''9,500'', ''Dealer'')"
    by (simp add: read_required_def no_hash_page_def)
  moreover have "read_key_specs no_hash_page = Inl IndexError"
    by (simp add: read_key_specs_def no_hash_page_def icon_type_of_def py_index_1)
  ultimately have "scrape_one_car (\<lambda>url. Some no_hash_page) sample_id =
       (Inl IndexError,
        Some \<lparr>shown = no_hash_page, clicks = 0, reads = 0, closed = False\<rparr>)"
    by (simp add: scrape_one_car_def open_browser_def Let_def)
  then show ?thesis
    by (simp add: no_hash_page_def)
qed

text \<open>
  C9, amended. On an advert page that opens, shows the description, the price and the
  seller paragraph, and whose key specifications (if the list is there) are read without
  an exception, the absence of both the tech-specs table and the vehicle check list is
  no error: \<open>scrape_one_car\<close> returns an Advertisement whose CO2 emission and three
  history fields are "Unknown", and whose description, price and seller type come from
  the page.
\<close>

theorem missing_optional_sections:
  assumes "web (BASE_URL @ ''/classified/advert/'' @ next_car) = Some page"
    and "heading_title page = Some next_description"
    and "cash_price page = Some next_price"
    and "seller_name page = Some has_anchor"
    and "read_key_specs page = Inr car_specs"
    and "tech_specs page = None"
    and "check_list page = None"
  shows "\<exists>ad fin. scrape_one_car web next_car = (Inr ad, fin)
      \<and> co2emission ad = ''Unknown'' \<and> was_stolen ad = ''Unknown''
      \<and> was_write_off ad = ''Unknown'' \<and> was_scrapped ad = ''Unknown''
      \<and> description ad = next_description \<and> price ad = next_price
      \<and> seller_type ad = (if has_anchor then ''Dealer'' else ''Private'')"
proof -
  have req: "read_required page =
      Inr (next_description, next_price, if has_anchor then ''Dealer'' else ''Private'')"
    using assms(2-4) by (simp add: read_required_def)
  have em: "read_emission page = Inr ''Unknown''"
    using assms(6) by (simp add: read_emission_def)
  have chk: "read_vehicle_check page = Inr (''Unknown'', ''Unknown'', ''Unknown'')"
    using assms(7) by (simp add: read_vehicle_check_def)
  from scrape_one_car_ok[where web = web and next_car = next_car, OF assms(1) req assms(5) em chk]
  show ?thesis
    by simp
qed

theorem missing_optional_sections_witness:
  "\<exists>ad fin. scrape_one_car (\<lambda>url. Some bare_page) sample_id = (Inr ad, fin)
      \<and> co2emission ad = ''Unknown'' \<and> was_stolen ad = ''Unknown''
      \<and> was_write_off ad = ''Unknown'' \<and> was_scrapped ad = ''Unknown''
      \<and> description ad = ''Audi A3 1.4 TFSI'' \<and> price ad = ''12,250''
      \<and> seller_type ad = ''Private''"
proof -
  have "\<exists>ad fin. scrape_one_car (\<lambda>url. Some bare_page) sample_id = (Inr ad, fin)
      \<and> co2emission ad = ''Unknown'' \<and> was_stolen ad = ''Unknown''
      \<and> was_write_off ad = ''Unknown'' \<and> was_scrapped ad = ''Unknown''
      \<and> description ad = ''Audi A3 1.4 TFSI'' \<and> price ad = ''12,250''
      \<and> seller_type ad = (if False then ''Dealer'' else ''Private'')"
  proof (rule missing_optional_sections)
    show "(\<lambda>url. Some bare_page) (BASE_URL @ ''/classified/advert/'' @ sample_id) = Some bare_page"
      by simp
    show "heading_title bare_page = Some ''Audi A3 1.4 TFSI''"
      by (simp add: bare_page_def)
    show "cash_price bare_page = Some ''12,250''"
      by (simp add: bare_page_def)
    show "seller_name bare_page = Some False"
      by (simp add: bare_page_def)
    show "read_key_specs bare_page = Inr (set_spec ''ks-fuel-type'' ''Petrol'' default_specs)"
      by (rule read_key_specs_samples)
    show "tech_specs bare_page = None"
      by (simp add: bare_page_def)
    show "check_list bare_page = None"
      by (simp add: bare_page_def)
  qed
  then show ?thesis by simp
qed

text \<open>
  C10 as stated fails: an item with fewer than two spans raises only when it is one of
  the three items the function reads. Here the fourth item has one span and the
  extraction returns an Advertisement.
\<close>

theorem short_check_list_counterexample:
  "check_list four_checks_page =
     Some [[''Stolen'', ''Clear''], [''Scrapped'', ''Clear''], [''Written off'', ''Clear''],
           [''Imported'']]
   \<and> scrape_one_car (\<lambda>url. Some four_checks_page) sample_id =
     (Inr four_checks_ad,
      Some \<lparr>shown = four_checks_page, clicks = 0, reads = 0, closed = True\<rparr>)"
  by (simp add: four_checks_page_scrape) (simp add: four_checks_page_def)

text \<open>
  C10, amended. The three history fields take their default only when the whole list
  is absent. On an advert page whose earlier sections (required elements, key
  specifications, tech specs) are read without an exception, a vehicle check list that
  is present with fewer than three items, or in which one of the first three items has
  fewer than two spans, makes \<open>scrape_one_car\<close> raise \<open>IndexError\<close>; the browser is
  left open.
\<close>

theorem short_check_list_raises:
  assumes "web (BASE_URL @ ''/classified/advert/'' @ next_car) = Some page"
    and "read_required page = Inr required"
    and "read_key_specs page = Inr car_specs"
    and "read_emission page = Inr next_emission"
    and "check_list page = Some vlist_items"
    and "length vlist_items < 3 \<or> (\<exists>i<3. length (vlist_items ! i) < 2)"
  shows "scrape_one_car web next_car =
     (Inl IndexError, Some \<lparr>shown = page, clicks = 0, reads = 0, closed = False\<rparr>)"
proof -
  from assms(5,6) have "read_vehicle_check page = Inl IndexError"
    by (simp add: read_vehicle_check_eq)
  with assms(1-4) show ?thesis
    by (simp add: scrape_one_car_def open_browser_def Let_def)
qed

theorem short_check_list_raises_witness:
  "scrape_one_car (\<lambda>url. Some two_checks_page) sample_id =
     (Inl IndexError, Some \<lparr>shown = two_checks_page, clicks = 0, reads = 0, closed = False\<rparr>)
   \<and> scrape_one_car (\<lambda>url. Some one_span_page) sample_id =
     (Inl IndexError, Some \<lparr>shown = one_span_page, clicks = 0, reads = 0, closed = False\<rparr>)"
proof
  show "scrape_one_car (\<lambda>url. Some two_checks_page) sample_id =
     (Inl IndexError, Some \<lparr>shown = two_checks_page, clicks = 0, reads = 0, closed = False\<rparr>)"
  proof (rule short_check_list_raises)
    show "(\<lambda>url. Some two_checks_page) (BASE_URL @ ''/classified/advert/'' @ sample_id)
        = Some two_checks_page"
      by simp
    show "read_required two_checks_page = Inr (''Ford Fiesta 1.0T Zetec'', ''9,500'', ''Dealer'')"
      by (rule read_required_samples)
    show "read_key_specs two_checks_page = Inr default_specs"
      by (rule read_key_specs_samples)
    show "read_emission two_checks_page = Inr ''Unknown''"
      by (rule read_emission_samples)
    show "check_list two_checks_page = Some [[''Stolen'', ''Clear''], [''Scrapped'', ''Clear'']]"
      by (simp add: two_checks_page_def)
    show "length [[''Stolen'', ''Clear''], [''Scrapped'', ''Clear'']] < 3
        \<or> (\<exists>i<3. length ([[''Stolen'', ''Clear''], [''Scrapped'', ''Clear'']] ! i) < 2)"
      by simp
  qed
  show "scrape_one_car (\<lambda>url. Some one_span_page) sample_id =
     (Inl IndexError, Some \<lparr>shown = one_span_page, clicks = 0, reads = 0, closed = False\<rparr>)"
  proof (rule short_check_list_raises)
    show "(\<lambda>url. Some one_span_page) (BASE_URL @ ''/classified/advert/'' @ sample_id)
        = Some one_span_page"
      by simp
    show "read_required one_span_page = Inr (''Ford Fiesta 1.0T Zetec'', ''9,500'', ''Dealer'')"
      by (rule read_required_samples)
    show "read_key_specs one_span_page = Inr default_specs"
      by (rule read_key_specs_samples)
    show "read_emission one_span_page = Inr ''Unknown''"
      by (rule read_emission_samples)
    show "check_list one_span_page =
        Some [[''Stolen'', ''Clear''], [''Scrapped''], [''Written off'', ''Clear'']]"
      by (simp add: one_span_page_def)
    have "(1::nat) < 3 \<and> length ([[''Stolen'', ''Clear''], [''Scrapped''],
        [''Written off'', ''Clear'']] ! 1) < 2"
      by simp
    then show "length [[''Stolen'', ''Clear''], [''Scrapped''], [''Written off'', ''Clear'']] < 3
        \<or> (\<exists>i<3. length ([[''Stolen'', ''Clear''], [''Scrapped''],
              [''Written off'', ''Clear'']] ! i) < 2)"
      by blast
  qed
qed

text \<open>
  C4 as stated fails: neither function has a \<open>try\<close> around its body, so an exception
  leaves before \<open>clean_up\<close> is reached. A listing that runs out of pages below the
  expected count, and an advert page without the description, leave the browser open.
\<close>

theorem browser_left_open_counterexample:
  "search_one_car_type (\<lambda>url. Some short_site) fiesta_car =
     Some (Inl NoSuchElementException,
           Some \<lparr>shown = short_site, clicks = 0, reads = 1, closed = False\<rparr>)
   \<and> scrape_one_car (\<lambda>url. Some headless_page) sample_id =
     (Inl NoSuchElementException,
      Some \<lparr>shown = headless_page, clicks = 0, reads = 0, closed = False\<rparr>)"
  by (simp add: short_site_search headless_page_scrape)

text \<open>
  C4, amended. A harvest and an extraction that return normally (the harvest, when the
  threshold is met) have closed the browser they opened before they return. When they
  leave by an exception the browser, if one was opened, is not closed.
\<close>

theorem browser_closed_on_return:
  "(search_one_car_type lweb next_car = Some (Inr cars_found, lfin)
      \<longrightarrow> (\<exists>b. lfin = Some b \<and> closed b))
   \<and> (search_one_car_type lweb next_car = Some (Inl e, lfin)
      \<longrightarrow> (\<forall>b. lfin = Some b \<longrightarrow> \<not> closed b))
   \<and> (scrape_one_car dweb next_id = (Inr ad, dfin)
      \<longrightarrow> (\<exists>b. dfin = Some b \<and> closed b))
   \<and> (scrape_one_car dweb next_id = (Inl e', dfin)
      \<longrightarrow> (\<forall>b. dfin = Some b \<longrightarrow> \<not> closed b))"
proof (intro conjI impI)
  assume "search_one_car_type lweb next_car = Some (Inr cars_found, lfin)"
  then obtain total_cars site b where
    loop: "search_loop total_cars (Some \<lparr>shown = site, clicks = 0, reads = 0, closed = False\<rparr>) {}
            = Some (Inr cars_found, b)"
    and fin: "lfin = clean_up b"
    unfolding search_one_car_type_normal by blast
  from search_loop_unchanged[OF loop] obtain b' where "b = Some b'"
    by auto
  with fin show "\<exists>b. lfin = Some b \<and> closed b"
    by (simp add: clean_up_def)
next
  assume raised: "search_one_car_type lweb next_car = Some (Inl e, lfin)"
  show "\<forall>b. lfin = Some b \<longrightarrow> \<not> closed b"
  proof (intro allI impI)
    fix b assume b: "lfin = Some b"
    with raised obtain total_cars site where
      "search_loop total_cars (Some \<lparr>shown = site, clicks = 0, reads = 0, closed = False\<rparr>) {}
          = Some (Inl e, Some b)
       \<or> b = \<lparr>shown = site, clicks = 0, reads = 0, closed = False\<rparr>"
      by (auto simp: search_one_car_type_def open_browser_def
          split: sum.splits option.splits prod.splits)
    then show "\<not> closed b"
    proof
      assume "search_loop total_cars
          (Some \<lparr>shown = site, clicks = 0, reads = 0, closed = False\<rparr>) {} = Some (Inl e, Some b)"
      from search_loop_unchanged[OF this] show ?thesis by simp
    next
      assume "b = \<lparr>shown = site, clicks = 0, reads = 0, closed = False\<rparr>"
      then show ?thesis by simp
    qed
  qed
next
  assume "scrape_one_car dweb next_id = (Inr ad, dfin)"
  from scrape_one_car_returns[OF this] obtain page d p s cs em st wo sc where
    "dweb (BASE_URL @ ''/classified/advert/'' @ next_id) = Some page"
    "read_required page = Inr (d, p, s)" "read_key_specs page = Inr cs"
    "read_emission page = Inr em" "read_vehicle_check page = Inr (st, wo, sc)"
    by blast
  from scrape_one_car_ok[where web = dweb and next_car = next_id, OF this]
    \<open>scrape_one_car dweb next_id = (Inr ad, dfin)\<close>
  show "\<exists>b. dfin = Some b \<and> closed b"
    by auto
next
  assume "scrape_one_car dweb next_id = (Inl e', dfin)"
  from scrape_one_car_raises[OF this] show "\<forall>b. dfin = Some b \<longrightarrow> \<not> closed b"
    by auto
qed

theorem browser_closed_on_return_witness:
  "search_one_car_type (\<lambda>url. Some a3_site) a3_car =
      Some (Inr {''201910012835451'', ''201910012835452''},
            Some \<lparr>shown = a3_site, clicks = 1, reads = 2, closed = True\<rparr>)
   \<and> closed \<lparr>shown = a3_site, clicks = 1, reads = 2, closed = True\<rparr>
   \<and> search_one_car_type (\<lambda>url. Some niva_site) fiesta_car =
      Some (Inl NoSuchElementException,
            Some \<lparr>shown = niva_site, clicks = 0, reads = 1, closed = False\<rparr>)
   \<and> \<not> closed \<lparr>shown = niva_site, clicks = 0, reads = 1, closed = False\<rparr>
   \<and> scrape_one_car (\<lambda>url. Some full_page) sample_id =
      (Inr full_ad, Some \<lparr>shown = full_page, clicks = 0, reads = 0, closed = True\<rparr>)
   \<and> closed \<lparr>shown = full_page, clicks = 0, reads = 0, closed = True\<rparr>
   \<and> scrape_one_car (\<lambda>url. Some two_checks_page) sample_id =
      (Inl IndexError,
       Some \<lparr>shown = two_checks_page, clicks = 0, reads = 0, closed = False\<rparr>)
   \<and> \<not> closed \<lparr>shown = two_checks_page, clicks = 0, reads = 0, closed = False\<rparr>"
proof -
  have niva: "search_one_car_type (\<lambda>url. Some niva_site) fiesta_car =
     Some (Inl NoSuchElementException,
           Some \<lparr>shown = niva_site, clicks = 0, reads = 1, closed = False\<rparr>)"
    by (simp add: search_one_car_type_def fiesta_car_def open_browser_def search_loop.simps)
      (simp add: niva_site_def pages_of_def last_page_def)
  have two: "scrape_one_car (\<lambda>url. Some two_checks_page) sample_id =
     (Inl IndexError, Some \<lparr>shown = two_checks_page, clicks = 0, reads = 0, closed = False\<rparr>)"
    by (simp add: scrape_one_car_def open_browser_def Let_def read_required_samples
        read_key_specs_samples read_emission_samples read_vehicle_check_eq)
      (simp add: two_checks_page_def)
  note all = browser_closed_on_return
    [where lweb = "\<lambda>url. Some a3_site" and next_car = a3_car
       and dweb = "\<lambda>url. Some full_page" and next_id = sample_id]
  note err = browser_closed_on_return
    [where lweb = "\<lambda>url. Some niva_site" and next_car = fiesta_car
       and dweb = "\<lambda>url. Some two_checks_page" and next_id = sample_id]
  from all a3_site_search obtain b1 where
    "Some \<lparr>shown = a3_site, clicks = 1, reads = 2, closed = True\<rparr> = Some b1" "closed b1"
    by blast
  then have 1: "closed \<lparr>shown = a3_site, clicks = 1, reads = 2, closed = True\<rparr>"
    by (simp only: option.inject)
  from err niva have "\<forall>b. Some \<lparr>shown = niva_site, clicks = 0, reads = 1, closed = False\<rparr> = Some b
          \<longrightarrow> \<not> closed b"
    by blast
  then have 2: "\<not> closed \<lparr>shown = niva_site, clicks = 0, reads = 1, closed = False\<rparr>"
    by blast
  from all full_page_scrape obtain b3 where
    "Some \<lparr>shown = full_page, clicks = 0, reads = 0, closed = True\<rparr> = Some b3" "closed b3"
    by blast
  then have 3: "closed \<lparr>shown = full_page, clicks = 0, reads = 0, closed = True\<rparr>"
    by (simp only: option.inject)
  from err two have "\<forall>b. Some \<lparr>shown = two_checks_page, clicks = 0, reads = 0, closed = False\<rparr>
      = Some b \<longrightarrow> \<not> closed b"
    by blast
  then have 4: "\<not> closed \<lparr>shown = two_checks_page, clicks = 0, reads = 0, closed = False\<rparr>"
    by blast
  from a3_site_search 1 niva 2 full_page_scrape 3 two 4 show ?thesis
    by (intro conjI)
qed

subsection \<open>The orchestrator\<close>

lemma scrape_car_set_member:
  "scrape_car_set web next_make next_model car_set = Inr ads \<Longrightarrow> ad \<in> set ads \<Longrightarrow>
     \<exists>next_car scraped fin. next_car \<in> set car_set
       \<and> scrape_one_car web next_car = (Inr scraped, fin)
       \<and> ad = scraped\<lparr>ad_make := next_make, model := next_model\<rparr>"
proof (induction car_set arbitrary: ads)
  case Nil
  then show ?case by simp
next
  case (Cons c cs)
  from Cons.prems(1) obtain scraped rest where
    one: "fst (scrape_one_car web c) = Inr scraped"
    and rest: "scrape_car_set web next_make next_model cs = Inr rest"
    and ads: "ads = scraped\<lparr>ad_make := next_make, model := next_model\<rparr> # rest"
    by (auto split: sum.splits)
  from Cons.prems(2) ads
  consider "ad = scraped\<lparr>ad_make := next_make, model := next_model\<rparr>" | "ad \<in> set rest"
    by auto
  then show ?case
  proof cases
    case 1
    from one obtain fin where "scrape_one_car web c = (Inr scraped, fin)"
      by (cases "scrape_one_car web c") auto
    with 1 show ?thesis by auto
  next
    case 2
    from Cons.IH[OF rest 2] show ?thesis by auto
  qed
qed

lemma scrape_all_cars_member:
  "scrape_all_cars web these_cars = Inr all_ads \<Longrightarrow> ad \<in> set all_ads \<Longrightarrow>
     \<exists>next_make next_model car_set ads.
       (next_make, next_model, car_set) \<in> set these_cars
       \<and> scrape_car_set web next_make next_model car_set = Inr ads \<and> ad \<in> set ads"
proof (induction these_cars arbitrary: all_ads)
  case Nil
  then show ?case by simp
next
  case (Cons t ts)
  obtain mk md ids where t: "t = (mk, md, ids)" by (cases t)
  with Cons.prems(1) obtain ads others where
    first: "scrape_car_set web mk md ids = Inr ads"
    and rest: "scrape_all_cars web ts = Inr others"
    and all: "all_ads = ads @ others"
    by (auto split: sum.splits)
  from Cons.prems(2) all consider "ad \<in> set ads" | "ad \<in> set others"
    by auto
  then show ?case
  proof cases
    case 1
    with first t show ?thesis by auto
  next
    case 2
    from Cons.IH[OF rest 2] show ?thesis by auto
  qed
qed

text \<open>
  C3 as stated fails: a field may hold the empty string. An advert page whose heading
  element has no text gives an Advertisement whose description is empty.
\<close>

theorem empty_field_counterexample:
  "scrape_all_cars (\<lambda>url. Some untitled_page) [(''Ford'', ''Fiesta'', [sample_id])]
     = Inr [untitled_ad]
   \<and> description untitled_ad = ''''"
  by (simp add: untitled_page_scrape) (simp add: untitled_ad_def)

text \<open>
  C3, amended. Every Advertisement that the pipeline produces has all seventeen
  attributes assigned: the hyperlink is the advert URL, make and model are those of the
  query, the seller type is "Dealer" or "Private", description and price are the texts
  of their page elements, and each of the other eleven is "Unknown" or a text read from
  the page. So every field is "Unknown" or non-empty unless the query's make or model,
  or a text of the page, is empty.
\<close>

theorem pipeline_fields:
  assumes "scrape_all_cars web these_cars = Inr all_ads" and "ad \<in> set all_ads"
  shows "\<exists>next_make next_model car_set next_car page.
      (next_make, next_model, car_set) \<in> set these_cars \<and> next_car \<in> set car_set
    \<and> web (BASE_URL @ ''/classified/advert/'' @ next_car) = Some page
    \<and> hyperlink ad = BASE_URL @ ''/classified/advert/'' @ next_car
    \<and> ad_make ad = next_make \<and> model ad = next_model
    \<and> seller_type ad \<in> {''Dealer'', ''Private''}
    \<and> heading_title page = Some (description ad) \<and> cash_price page = Some (price ad)
    \<and> (\<forall>f \<in> set [year ad, mileage ad, body_style ad, co2emission ad, doors ad,
                    transmission ad, was_stolen ad, was_write_off ad, was_scrapped ad,
                    engine_size ad, fuel_type ad].
          f = ''Unknown'' \<or> f \<in> page_texts page)
    \<and> ((\<forall>f \<in> set (ad_fields ad). f = ''Unknown'' \<or> f \<noteq> '''')
         \<or> next_make = '''' \<or> next_model = '''' \<or> '''' \<in> page_texts page)"
proof -
  from scrape_all_cars_member[OF assms] obtain next_make next_model car_set ads where
    tup: "(next_make, next_model, car_set) \<in> set these_cars"
    and set: "scrape_car_set web next_make next_model car_set = Inr ads" and mem: "ad \<in> set ads"
    by blast
  from scrape_car_set_member[OF set mem] obtain next_car scraped fin where
    car: "next_car \<in> set car_set"
    and one: "scrape_one_car web next_car = (Inr scraped, fin)"
    and ad: "ad = scraped\<lparr>ad_make := next_make, model := next_model\<rparr>"
    by blast
  from scrape_one_car_returns[OF one] obtain page d p s cs em st wo sc where
    page: "web (BASE_URL @ ''/classified/advert/'' @ next_car) = Some page"
    and req: "read_required page = Inr (d, p, s)"
    and specs: "read_key_specs page = Inr cs"
    and emis: "read_emission page = Inr em"
    and chk: "read_vehicle_check page = Inr (st, wo, sc)"
    by blast
  let ?url = "BASE_URL @ ''/classified/advert/'' @ next_car"
  from scrape_one_car_ok[where web = web and next_car = next_car, OF page req specs emis chk]
    one ad
  have ad_eq: "ad = \<lparr>hyperlink = ?url, description = d, seller_type = s, price = p,
           ad_make = next_make, model = next_model, year = the (cs ''year''),
           mileage = the (cs ''mileage''), body_style = the (cs ''body_style''),
           co2emission = em, doors = the (cs ''doors''),
           transmission = the (cs ''transmission''), was_stolen = st,
           was_write_off = wo, was_scrapped = sc,
           engine_size = the (cs ''engine_size''), fuel_type = the (cs ''fuel_type'')\<rparr>"
    by auto
  from req have heading: "heading_title page = Some d" and cash: "cash_price page = Some p"
    and seller: "s \<in> {''Dealer'', ''Private''}"
    by (auto simp: read_required_eq split: if_splits)
  have spec_field: "the (cs f) = ''Unknown'' \<or> the (cs f) \<in> page_texts page"
    if "f \<in> snd ` set marker_table" for f
  proof -
    from that read_key_specs_keys[OF specs] obtain v where "cs f = Some v" by blast
    with read_key_specs_values[OF specs this] show ?thesis by simp
  qed
  have keys: "''year'' \<in> snd ` set marker_table" "''mileage'' \<in> snd ` set marker_table"
    "''body_style'' \<in> snd ` set marker_table" "''doors'' \<in> snd ` set marker_table"
    "''transmission'' \<in> snd ` set marker_table" "''engine_size'' \<in> snd ` set marker_table"
    "''fuel_type'' \<in> snd ` set marker_table"
    by (simp_all add: marker_table_def)
  note specs_ok = keys[THEN spec_field]
  have em_ok: "em = ''Unknown'' \<or> em \<in> page_texts page"
    by (rule read_emission_values[OF emis])
  have chk_ok: "st = ''Unknown'' \<or> st \<in> page_texts page"
    "wo = ''Unknown'' \<or> wo \<in> page_texts page" "sc = ''Unknown'' \<or> sc \<in> page_texts page"
    using read_vehicle_check_values[OF chk] by simp_all
  have optional: "\<forall>f \<in> set [year ad, mileage ad, body_style ad, co2emission ad, doors ad,
                    transmission ad, was_stolen ad, was_write_off ad, was_scrapped ad,
                    engine_size ad, fuel_type ad].
          f = ''Unknown'' \<or> f \<in> page_texts page"
    using specs_ok em_ok chk_ok by (simp add: ad_eq)
  have in_page: "d \<in> page_texts page" "p \<in> page_texts page"
    using heading cash by (simp_all add: page_texts_def)
  have url_ne: "?url \<noteq> ''''"
    by (simp add: BASE_URL_def)
  have nonempty: "(\<forall>f \<in> set (ad_fields ad). f = ''Unknown'' \<or> f \<noteq> '''')
         \<or> next_make = '''' \<or> next_model = '''' \<or> '''' \<in> page_texts page"
  proof (cases "next_make = '''' \<or> next_model = '''' \<or> '''' \<in> page_texts page")
    case True
    then show ?thesis by blast
  next
    case False
    then have ne: "next_make \<noteq> ''''" "next_model \<noteq> ''''" "\<And>t. t \<in> page_texts page \<Longrightarrow> t \<noteq> ''''"
      by auto
    have ok: "v = ''Unknown'' \<or> v \<noteq> ''''" if "v = ''Unknown'' \<or> v \<in> page_texts page" for v
      using that ne(3) by blast
    have d_ok: "d \<noteq> ''''" and p_ok: "p \<noteq> ''''" and s_ok: "s \<noteq> ''''"
      using ne(3) in_page seller by auto
    note rest_ok = specs_ok[THEN ok] em_ok[THEN ok] chk_ok[THEN ok]
    have "\<forall>f \<in> set (ad_fields ad). f = ''Unknown'' \<or> f \<noteq> ''''"
      unfolding ad_fields_def ad_eq
      using ne(1,2) d_ok p_ok s_ok url_ne rest_ok
      by (simp del: append_is_Nil_conv)
    then show ?thesis by blast
  qed
  have proj1: "hyperlink ad = ?url"
    by (simp add: ad_eq)
  have proj2: "ad_make ad = next_make"
    by (simp add: ad_eq)
  have proj3: "model ad = next_model"
    by (simp add: ad_eq)
  have proj4: "seller_type ad \<in> {''Dealer'', ''Private''}"
    using seller by (simp add: ad_eq)
  have proj5: "heading_title page = Some (description ad)"
    using heading by (simp add: ad_eq)
  have proj6: "cash_price page = Some (price ad)"
    using cash by (simp add: ad_eq)
  have body: "(next_make, next_model, car_set) \<in> set these_cars \<and> next_car \<in> set car_set
    \<and> web (BASE_URL @ ''/classified/advert/'' @ next_car) = Some page
    \<and> hyperlink ad = BASE_URL @ ''/classified/advert/'' @ next_car
    \<and> ad_make ad = next_make \<and> model ad = next_model
    \<and> seller_type ad \<in> {''Dealer'', ''Private''}
    \<and> heading_title page = Some (description ad) \<and> cash_price page = Some (price ad)
    \<and> (\<forall>f \<in> set [year ad, mileage ad, body_style ad, co2emission ad, doors ad,
                    transmission ad, was_stolen ad, was_write_off ad, was_scrapped ad,
                    engine_size ad, fuel_type ad].
          f = ''Unknown'' \<or> f \<in> page_texts page)
    \<and> ((\<forall>f \<in> set (ad_fields ad). f = ''Unknown'' \<or> f \<noteq> '''')
         \<or> next_make = '''' \<or> next_model = '''' \<or> '''' \<in> page_texts page)"
    by (intro conjI)
      (rule tup car page proj1 proj2 proj3 proj4 proj5 proj6 optional nonempty)+
  then show ?thesis
    by - (rule exI[of _ next_make], rule exI[of _ next_model], rule exI[of _ car_set],
        rule exI[of _ next_car], rule exI[of _ page])
qed

theorem pipeline_fields_witness:
  "scrape_all_cars (\<lambda>url. Some full_page) [(''Ford'', ''Fiesta'', [sample_id])]
     = Inr [full_ad\<lparr>ad_make := ''Ford'', model := ''Fiesta''\<rparr>]
   \<and> '''' \<notin> set (ad_fields (full_ad\<lparr>ad_make := ''Ford'', model := ''Fiesta''\<rparr>))"
proof -
  let ?ad = "full_ad\<lparr>ad_make := ''Ford'', model := ''Fiesta''\<rparr>"
  have run: "scrape_all_cars (\<lambda>url. Some full_page) [(''Ford'', ''Fiesta'', [sample_id])]
     = Inr [?ad]"
    by (simp add: full_page_scrape)
  have mem: "?ad \<in> set [?ad]"
    by simp
  from pipeline_fields[OF run mem] obtain next_make next_model car_set next_car page where
    tup: "(next_make, next_model, car_set) \<in> set [(''Ford'', ''Fiesta'', [sample_id])]"
    and page: "(\<lambda>url. Some full_page) (BASE_URL @ ''/classified/advert/'' @ next_car) = Some page"
    and fields: "(\<forall>f \<in> set (ad_fields ?ad). f = ''Unknown'' \<or> f \<noteq> '''')
         \<or> next_make = '''' \<or> next_model = '''' \<or> '''' \<in> page_texts page"
    by (elim exE conjE) (rule that; assumption)
  from tup have names: "next_make = ''Ford''" "next_model = ''Fiesta''"
    by simp_all
  from page have "page = full_page"
    by simp
  then have "'''' \<notin> page_texts page"
    by (simp add: page_texts_def full_page_def spec_li_def)
  with fields names have "\<forall>f \<in> set (ad_fields ?ad). f = ''Unknown'' \<or> f \<noteq> ''''"
    by simp
  then have "'''' \<notin> set (ad_fields ?ad)"
    by fastforce
  with run show ?thesis
    by (rule conjI)
qed

end
